theory Spec2Isabelle
  imports Complex_Main "HOL-Library.Log_Nat" "HOL-Library.Word"
begin

section \<open>float64\<close>

text \<open>
  The amounts of an expense are Go \<^verbatim>\<open>float64\<close> values and the expense service
  computes with them.  A \<^verbatim>\<open>float64\<close> is a finite binary64 number (a real), an
  infinity or NaN; every arithmetic operation gives the exact result rounded to the
  nearest binary64 number, ties to the even significand.  Each operation rounds on its
  own, as in the code the Go compiler emits for amd64 (the language lets a compiler fuse
  \<^verbatim>\<open>x*y + z\<close> into one rounding, which the compiler does on some other
  architectures).  The sign of zero is not modelled (no modelled path divides by zero or
  prints one).
\<close>

datatype float64 = Finite real | PosInf | NegInf | NaN

definition pow2 :: "int \<Rightarrow> real" where
  "pow2 e = (if 0 \<le> e then 2 ^ nat e else 1 / 2 ^ nat (- e))"

text \<open>The binary exponent of a positive real: \<open>pow2 (ilog2 x) \<le> x < pow2 (ilog2 x + 1)\<close>.\<close>

definition ilog2 :: "real \<Rightarrow> int" where
  "ilog2 x = (if 1 \<le> x then bitlen \<lfloor>x\<rfloor> - 1 else - bitlen (\<lceil>1 / x\<rceil> - 1))"

definition roundEven :: "real \<Rightarrow> int" where
  "roundEven q =
     (let f = \<lfloor>q\<rfloor>; r = q - of_int f
      in if r < 1 / 2 then f else if 1 / 2 < r then f + 1 else if even f then f else f + 1)"

text \<open>
  Rounding to 53 significant bits, the unit in the last place never below the smallest
  subnormal \<open>pow2 (- 1074)\<close>.
\<close>

definition round64 :: "real \<Rightarrow> real" where
  "round64 x =
     (if x = 0 then 0
      else let e = max (ilog2 \<bar>x\<bar> - 52) (- 1074)
           in of_int (roundEven (x / pow2 e)) * pow2 e)"

definition maxFloat64 :: real where
  "maxFloat64 = (2 ^ 53 - 1) * 2 ^ 971"

definition fl :: "real \<Rightarrow> float64" where
  "fl x = (let y = round64 x
           in if maxFloat64 < \<bar>y\<bar> then (if 0 < y then PosInf else NegInf) else Finite y)"

text \<open>
  A decimal literal of the source (\<^verbatim>\<open>0.01\<close>, \<^verbatim>\<open>100.0\<close>) or of a JSON request
  denotes the nearest \<^verbatim>\<open>float64\<close>; \<^verbatim>\<open>float64(n)\<close> converts an integer.
\<close>

definition f64 :: "real \<Rightarrow> float64" where
  "f64 d = fl d"

definition ofNat :: "nat \<Rightarrow> float64" where
  "ofNat n = fl (real n)"

fun fneg :: "float64 \<Rightarrow> float64" where
  "fneg (Finite a) = Finite (- a)"
| "fneg PosInf = NegInf"
| "fneg NegInf = PosInf"
| "fneg NaN = NaN"

fun fabs :: "float64 \<Rightarrow> float64" where
  "fabs (Finite a) = Finite \<bar>a\<bar>"
| "fabs PosInf = PosInf"
| "fabs NegInf = PosInf"
| "fabs NaN = NaN"

fun fadd :: "float64 \<Rightarrow> float64 \<Rightarrow> float64" where
  "fadd (Finite a) (Finite b) = fl (a + b)"
| "fadd NaN y = NaN"
| "fadd x NaN = NaN"
| "fadd PosInf NegInf = NaN"
| "fadd NegInf PosInf = NaN"
| "fadd PosInf y = PosInf"
| "fadd NegInf y = NegInf"
| "fadd x PosInf = PosInf"
| "fadd x NegInf = NegInf"

definition fsub :: "float64 \<Rightarrow> float64 \<Rightarrow> float64" where
  "fsub x y = fadd x (fneg y)"

fun fmul :: "float64 \<Rightarrow> float64 \<Rightarrow> float64" where
  "fmul (Finite a) (Finite b) = fl (a * b)"
| "fmul NaN y = NaN"
| "fmul x NaN = NaN"
| "fmul (Finite a) PosInf = (if a = 0 then NaN else if 0 < a then PosInf else NegInf)"
| "fmul (Finite a) NegInf = (if a = 0 then NaN else if 0 < a then NegInf else PosInf)"
| "fmul PosInf (Finite b) = (if b = 0 then NaN else if 0 < b then PosInf else NegInf)"
| "fmul NegInf (Finite b) = (if b = 0 then NaN else if 0 < b then NegInf else PosInf)"
| "fmul PosInf PosInf = PosInf"
| "fmul PosInf NegInf = NegInf"
| "fmul NegInf PosInf = NegInf"
| "fmul NegInf NegInf = PosInf"

fun fdiv :: "float64 \<Rightarrow> float64 \<Rightarrow> float64" where
  "fdiv (Finite a) (Finite b) =
     (if b = 0 then (if a = 0 then NaN else if 0 < a then PosInf else NegInf)
      else fl (a / b))"
| "fdiv NaN y = NaN"
| "fdiv x NaN = NaN"
| "fdiv (Finite a) PosInf = Finite 0"
| "fdiv (Finite a) NegInf = Finite 0"
| "fdiv PosInf (Finite b) = (if 0 \<le> b then PosInf else NegInf)"
| "fdiv NegInf (Finite b) = (if 0 \<le> b then NegInf else PosInf)"
| "fdiv PosInf PosInf = NaN"
| "fdiv PosInf NegInf = NaN"
| "fdiv NegInf PosInf = NaN"
| "fdiv NegInf NegInf = NaN"

text \<open>The comparisons \<^verbatim>\<open><\<close>, \<^verbatim>\<open><=\<close> and \<^verbatim>\<open>==\<close>: false whenever an operand is NaN.\<close>

fun flt :: "float64 \<Rightarrow> float64 \<Rightarrow> bool" where
  "flt (Finite a) (Finite b) = (a < b)"
| "flt NaN y = False"
| "flt x NaN = False"
| "flt PosInf y = False"
| "flt x NegInf = False"
| "flt NegInf y = True"
| "flt x PosInf = True"

fun feq :: "float64 \<Rightarrow> float64 \<Rightarrow> bool" where
  "feq (Finite a) (Finite b) = (a = b)"
| "feq PosInf PosInf = True"
| "feq NegInf NegInf = True"
| "feq x y = False"

definition fle :: "float64 \<Rightarrow> float64 \<Rightarrow> bool" where
  "fle x y \<longleftrightarrow> flt x y \<or> feq x y"

text \<open>The running sum of a loop \<^verbatim>\<open>total += v\<close> that starts from \<^verbatim>\<open>0.0\<close>.\<close>

definition fsum :: "float64 list \<Rightarrow> float64" where
  "fsum vs = foldl fadd (Finite 0) vs"

text \<open>
  The real number a finite \<^verbatim>\<open>float64\<close> is.  The store of this model holds real
  amounts; an increment by an infinity or NaN, which the store would take over into the
  balance, has no counterpart in it and counts as 0.
\<close>

fun toReal :: "float64 \<Rightarrow> real" where
  "toReal (Finite a) = a"
| "toReal x = 0"

section \<open>Data model (internal/models)\<close>

text \<open>
  The Go structs of \<^verbatim>\<open>internal/models\<close> become records.  Instants of
  \<^verbatim>\<open>time.Time\<close> are natural numbers.  The storage-assigned \<^verbatim>\<open>_id\<close> of a
  document plays no role in any operation and is left out.
\<close>

type_synonym SplitType = string

definition SplitEqual :: SplitType where "SplitEqual = ''equal''"
definition SplitExact :: SplitType where "SplitExact = ''exact''"
definition SplitPercentage :: SplitType where "SplitPercentage = ''percentage''"
definition SplitShares :: SplitType where "SplitShares = ''shares''"

record PaidBy =
  pb_UserID :: string
  pb_Amount :: float64

record SplitShare =
  ss_UserID :: string
  ss_Value :: float64

record SplitDetail =
  sd_Type :: SplitType
  sd_Details :: "SplitShare list"

record Expense =
  ExpenseID :: string
  e_GroupID :: "string option"
  CreatorID :: string
  Title :: string
  e_Amount :: float64
  e_Currency :: string
  e_PaidBy :: "PaidBy list"
  Split :: SplitDetail
  e_CreatedAt :: nat
  e_UpdatedAt :: nat
  IsDeleted :: bool

section \<open>Errors\<close>

text \<open>
  The source returns \<^verbatim>\<open>errors.New\<close> / \<^verbatim>\<open>fmt.Errorf\<close> values; each distinct
  error of the modelled functions is one constructor, carrying the values the message is
  formatted from.  The packages \<^verbatim>\<open>repositories\<close> and \<^verbatim>\<open>services\<close> each declare
  a sentinel with the message of \<open>ErrSettlementNotFound\<close> and of \<open>ErrBalanceNotFound\<close>;
  the two are one constructor here.
\<close>

datatype error =
    ErrAmountNotPositive                  \<comment> \<open>amount must be positive\<close>
  | ErrNoPayer                            \<comment> \<open>at least one payer must be specified\<close>
  | ErrInvalidPayerAmount string          \<comment> \<open>invalid amount for user %s\<close>
  | ErrTotalPaidMismatch float64 float64  \<comment> \<open>total paid amount %.2f does not match expense amount %.2f\<close>
  | ErrInvalidSplitType string            \<comment> \<open>invalid split type: %s\<close>
  | ErrUnsupportedSplitType string        \<comment> \<open>unsupported split type: %s\<close>
  | ErrNoParticipants                     \<comment> \<open>no participants found for equal split\<close>
  | ErrExactNoDetails                     \<comment> \<open>exact split requires split details with specific amounts\<close>
  | ErrExactInvalidAmount float64 string  \<comment> \<open>invalid amount %.2f for user %s in exact split\<close>
  | ErrExactTotalMismatch float64 float64 \<comment> \<open>total specified amounts %.2f do not match expense amount %.2f\<close>
  | ErrPercentageNoDetails                \<comment> \<open>percentage split requires split details with percentages\<close>
  | ErrInvalidPercentage float64 string   \<comment> \<open>invalid percentage %.2f for user %s\<close>
  | ErrPercentageTotal float64            \<comment> \<open>total percentage %.2f does not equal 100\<close>
  | ErrSharesNoDetails                    \<comment> \<open>share-based split requires split details with share counts\<close>
  | ErrInvalidShareCount float64 string   \<comment> \<open>invalid share count %.2f for user %s\<close>
  | ErrTotalSharesZero                    \<comment> \<open>total shares cannot be zero\<close>
  | ErrUserDoesNotExist string            \<comment> \<open>user %s does not exist\<close>
  | ErrNotGroupMember string string       \<comment> \<open>user %s is not a member of group %s\<close>
  | ErrTransactionFailed error            \<comment> \<open>transaction failed: %v\<close>
  | ErrExpenseNotFound                    \<comment> \<open>expense not found\<close>
  | ErrNoAccess                           \<comment> \<open>user does not have access to this expense\<close>
  | ErrBalanceNotFound                    \<comment> \<open>balance not found\<close>
  | ErrOptimisticLockFailure              \<comment> \<open>optimistic lock failure: balance was modified\<close>
  | ErrSettlementNotFound                 \<comment> \<open>settlement not found\<close>
  | ErrInvalidSettlement                  \<comment> \<open>invalid settlement request\<close>
  | ErrSettlementCompleted                \<comment> \<open>settlement is already completed\<close>
  | ErrOnlyPayerCanComplete               \<comment> \<open>only the payer can complete the settlement\<close>
  | ErrCanOnlyCancelPending               \<comment> \<open>can only cancel pending settlements\<close>

section \<open>Structural validation (services/expense.go, validateExpense)\<close>

text \<open>
  The loop over \<^verbatim>\<open>expense.PaidBy\<close> returns at the first payer whose amount is
  \<^verbatim>\<open><= 0\<close> and otherwise accumulates \<^verbatim>\<open>totalPaid\<close>.
\<close>

fun sumPaid :: "PaidBy list \<Rightarrow> float64 \<Rightarrow> error + float64" where
  "sumPaid [] totalPaid = Inr totalPaid"
| "sumPaid (pb # pbs) totalPaid =
     (if fle (pb_Amount pb) (f64 0) then Inl (ErrInvalidPayerAmount (pb_UserID pb))
      else sumPaid pbs (fadd totalPaid (pb_Amount pb)))"

definition validateExpense :: "Expense \<Rightarrow> error option" where
  "validateExpense expense =
     (if fle (e_Amount expense) (f64 0) then Some ErrAmountNotPositive
      else if length (e_PaidBy expense) = 0 then Some ErrNoPayer
      else case sumPaid (e_PaidBy expense) (f64 0) of
             Inl err \<Rightarrow> Some err
           | Inr totalPaid \<Rightarrow>
               if flt (f64 (1 / 100)) (fabs (fsub totalPaid (e_Amount expense)))
               then Some (ErrTotalPaidMismatch totalPaid (e_Amount expense))
               else if sd_Type (Split expense) = SplitEqual
                     \<or> sd_Type (Split expense) = SplitExact
                     \<or> sd_Type (Split expense) = SplitPercentage
                     \<or> sd_Type (Split expense) = SplitShares
               then None
               else Some (ErrInvalidSplitType (sd_Type (Split expense))))"

section \<open>Split calculator (services/expense.go, calculateShares)\<close>

subsection \<open>Equal split\<close>

text \<open>
  \<^verbatim>\<open>participants\<close> is a Go map used as a set; its keys are the payer ids followed by
  the split-detail ids, duplicates collapsed.  Go visits the keys of a map in an
  unspecified order: the order of one \<^verbatim>\<open>range\<close> over the map is an input \<open>ks\<close> of the
  model, and \<open>rangeOrder ks keys\<close> says that \<open>ks\<close> is such an order (every key once).
\<close>

definition participants :: "Expense \<Rightarrow> string list" where
  "participants expense =
     remdups (map pb_UserID (e_PaidBy expense) @ map ss_UserID (sd_Details (Split expense)))"

definition rangeOrder :: "string list \<Rightarrow> string list \<Rightarrow> bool" where
  "rangeOrder ks keys \<longleftrightarrow> distinct ks \<and> set ks = set keys"

fun adjustFirst :: "float64 \<Rightarrow> SplitShare list \<Rightarrow> SplitShare list" where
  "adjustFirst diff [] = []"
| "adjustFirst diff (s # shares) = s\<lparr>ss_Value := fadd (ss_Value s) diff\<rparr> # shares"

definition calculateEqualShares :: "string list \<Rightarrow> Expense \<Rightarrow> error + SplitShare list" where
  "calculateEqualShares ks expense =
     (let numParticipants = length (participants expense) in
      if numParticipants = 0 then Inl ErrNoParticipants
      else
        let equalShare = fdiv (e_Amount expense) (ofNat numParticipants);
            shares = map (\<lambda>userID. \<lparr>ss_UserID = userID, ss_Value = equalShare\<rparr>) ks;
            total = fmul equalShare (ofNat numParticipants);
            diff = fsub (e_Amount expense) total
        in Inr (adjustFirst diff shares))"

subsection \<open>Exact split\<close>

fun sumExact :: "SplitShare list \<Rightarrow> float64 \<Rightarrow> error + float64" where
  "sumExact [] totalSpecified = Inr totalSpecified"
| "sumExact (share # rest) totalSpecified =
     (if fle (ss_Value share) (f64 0)
      then Inl (ErrExactInvalidAmount (ss_Value share) (ss_UserID share))
      else sumExact rest (fadd totalSpecified (ss_Value share)))"

definition calculateExactShares :: "Expense \<Rightarrow> error + SplitShare list" where
  "calculateExactShares expense =
     (if length (sd_Details (Split expense)) = 0 then Inl ErrExactNoDetails
      else case sumExact (sd_Details (Split expense)) (f64 0) of
             Inl err \<Rightarrow> Inl err
           | Inr totalSpecified \<Rightarrow>
               if flt (f64 (1 / 100)) (fabs (fsub totalSpecified (e_Amount expense)))
               then Inl (ErrExactTotalMismatch totalSpecified (e_Amount expense))
               else Inr (map (\<lambda>share. \<lparr>ss_UserID = ss_UserID share, ss_Value = ss_Value share\<rparr>)
                             (sd_Details (Split expense))))"

subsection \<open>Percentage split\<close>

fun sumPercentage :: "SplitShare list \<Rightarrow> float64 \<Rightarrow> error + float64" where
  "sumPercentage [] totalPercentage = Inr totalPercentage"
| "sumPercentage (share # rest) totalPercentage =
     (if fle (ss_Value share) (f64 0) \<or> flt (f64 100) (ss_Value share)
      then Inl (ErrInvalidPercentage (ss_Value share) (ss_UserID share))
      else sumPercentage rest (fadd totalPercentage (ss_Value share)))"

text \<open>
  The second loop: \<open>ratio\<close> turns a raw value into the fraction of the amount
  (\<^verbatim>\<open>share.Value / 100.0\<close> here, \<^verbatim>\<open>share.Value / totalShares\<close> for weighted
  shares); the entry with index \<^verbatim>\<open>len - 1\<close> gets
  \<^verbatim>\<open>expense.Amount - totalCalculated\<close> instead.
\<close>

fun resolveShares ::
  "(float64 \<Rightarrow> float64) \<Rightarrow> float64 \<Rightarrow> SplitShare list \<Rightarrow> float64 \<Rightarrow> SplitShare list" where
  "resolveShares ratio expAmount [] totalCalculated = []"
| "resolveShares ratio expAmount [share] totalCalculated =
     [\<lparr>ss_UserID = ss_UserID share, ss_Value = fsub expAmount totalCalculated\<rparr>]"
| "resolveShares ratio expAmount (share # rest) totalCalculated =
     (let amount = fmul (ratio (ss_Value share)) expAmount
      in \<lparr>ss_UserID = ss_UserID share, ss_Value = amount\<rparr>
           # resolveShares ratio expAmount rest (fadd totalCalculated amount))"

definition calculatePercentageShares :: "Expense \<Rightarrow> error + SplitShare list" where
  "calculatePercentageShares expense =
     (if length (sd_Details (Split expense)) = 0 then Inl ErrPercentageNoDetails
      else case sumPercentage (sd_Details (Split expense)) (f64 0) of
             Inl err \<Rightarrow> Inl err
           | Inr totalPercentage \<Rightarrow>
               if flt (f64 (1 / 100)) (fabs (fsub totalPercentage (f64 100)))
               then Inl (ErrPercentageTotal totalPercentage)
               else Inr (resolveShares (\<lambda>v. fdiv v (f64 100)) (e_Amount expense)
                           (sd_Details (Split expense)) (f64 0)))"

subsection \<open>Weighted shares\<close>

fun sumShares :: "SplitShare list \<Rightarrow> float64 \<Rightarrow> error + float64" where
  "sumShares [] totalShares = Inr totalShares"
| "sumShares (share # rest) totalShares =
     (if fle (ss_Value share) (f64 0)
      then Inl (ErrInvalidShareCount (ss_Value share) (ss_UserID share))
      else sumShares rest (fadd totalShares (ss_Value share)))"

definition calculateShareBased :: "Expense \<Rightarrow> error + SplitShare list" where
  "calculateShareBased expense =
     (if length (sd_Details (Split expense)) = 0 then Inl ErrSharesNoDetails
      else case sumShares (sd_Details (Split expense)) (f64 0) of
             Inl err \<Rightarrow> Inl err
           | Inr totalShares \<Rightarrow>
               if feq totalShares (f64 0) then Inl ErrTotalSharesZero
               else Inr (resolveShares (\<lambda>v. fdiv v totalShares) (e_Amount expense)
                           (sd_Details (Split expense)) (f64 0)))"

subsection \<open>Dispatch\<close>

definition calculateShares :: "string list \<Rightarrow> Expense \<Rightarrow> error + SplitShare list" where
  "calculateShares ks expense =
     (if sd_Type (Split expense) = SplitEqual then calculateEqualShares ks expense
      else if sd_Type (Split expense) = SplitExact then calculateExactShares expense
      else if sd_Type (Split expense) = SplitPercentage then calculatePercentageShares expense
      else if sd_Type (Split expense) = SplitShares then calculateShareBased expense
      else Inl (ErrUnsupportedSplitType (sd_Type (Split expense))))"

section \<open>Stored documents and the document store\<close>

text \<open>
  The amounts of balances, history rows and settlements are read and written by the store
  and only handed on by the Go code (compared with zero, negated); they are real numbers here.  A
  version counter is a Go \<^verbatim>\<open>int\<close>, a 64-bit two's complement integer:
  \<^verbatim>\<open>Version++\<close> wraps around from the largest value to the smallest.
\<close>

record Balance =
  b_UserID :: string
  b_GroupID :: "string option"
  b_Balance :: real
  b_Currency :: string
  b_UpdatedAt :: nat
  b_Version :: "64 word"

type_synonym BalanceChangeType = string

definition BalanceChangeExpense :: BalanceChangeType where "BalanceChangeExpense = ''expense''"
definition BalanceChangeSettlement :: BalanceChangeType where "BalanceChangeSettlement = ''settlement''"
definition BalanceChangeAdjustment :: BalanceChangeType where "BalanceChangeAdjustment = ''adjustment''"
definition BalanceChangeCorrection :: BalanceChangeType where "BalanceChangeCorrection = ''correction''"

record BalanceHistory =
  h_UserID :: string
  h_GroupID :: "string option"
  h_Amount :: real
  h_Currency :: string
  h_Type :: BalanceChangeType
  h_ReferenceID :: string
  h_Description :: string
  h_CreatedAt :: nat

datatype SettlementStatus =
  SettlementPending | SettlementCompleted | SettlementFailed | SettlementCancelled

type_synonym SettlementMethod = string

record Settlement =
  SettlementID :: string
  s_FromUserID :: string
  s_ToUserID :: string
  s_GroupID :: "string option"
  s_Amount :: real
  s_Currency :: string
  s_Status :: SettlementStatus
  s_Method :: SettlementMethod
  s_Description :: string
  s_TransactionID :: "string option"
  s_CreatedAt :: nat
  s_UpdatedAt :: nat
  s_CompletedAt :: "nat option"
  s_FailedAt :: "nat option"
  s_FailureReason :: "string option"

record SettlementRequest =
  rq_FromUserID :: string
  rq_ToUserID :: string
  rq_GroupID :: "string option"
  rq_Amount :: real
  rq_Currency :: string
  rq_Method :: SettlementMethod
  rq_Description :: string

record GroupMember =
  gm_UserID :: string
  gm_Role :: string
  gm_JoinedAt :: nat
  gm_IsActive :: bool

record Group =
  GroupID :: string
  g_Name :: string
  g_Members :: "GroupMember list"
  g_Currency :: string
  g_CreatedAt :: nat
  g_UpdatedAt :: nat
  g_IsActive :: bool

text \<open>
  A collection is the list of its documents in insertion order.  \<^verbatim>\<open>FindOne\<close> returns
  the first document that satisfies the filter (\<^const>\<open>find\<close>), \<^verbatim>\<open>InsertOne\<close> appends,
  and \<^verbatim>\<open>UpdateOne\<close> rewrites the first document that satisfies the filter; it yields
  \<open>None\<close> when \<^verbatim>\<open>MatchedCount\<close> is 0.  Of a user document only \<^verbatim>\<open>user_id\<close> is
  ever read by the modelled code.  Driver and network failures are outside the model (with
  them the store's refusal of an \<^verbatim>\<open>$inc\<close> that overflows a 64-bit field), and
  every reading of \<^verbatim>\<open>time.Now()\<close> within one operation is the one instant \<open>now\<close>.
\<close>

record database =
  users :: "string list"
  groups :: "Group list"
  expenses :: "Expense list"
  balances :: "Balance list"
  history :: "BalanceHistory list"
  settlements :: "Settlement list"

fun UpdateOne :: "('a \<Rightarrow> bool) \<Rightarrow> ('a \<Rightarrow> 'a) \<Rightarrow> 'a list \<Rightarrow> 'a list option" where
  "UpdateOne matches upd [] = None"
| "UpdateOne matches upd (d # ds) =
     (if matches d then Some (upd d # ds)
      else case UpdateOne matches upd ds of None \<Rightarrow> None | Some ds' \<Rightarrow> Some (d # ds'))"

text \<open>
  A multi-document transaction: the callback runs on the store; when it returns an error
  the transaction aborts and the store is as before, otherwise its writes are committed.
\<close>

definition WithTransaction ::
  "(database \<Rightarrow> error + database) \<Rightarrow> database \<Rightarrow> error option \<times> database" where
  "WithTransaction fn db = (case fn db of Inl err \<Rightarrow> (Some err, db) | Inr db' \<Rightarrow> (None, db'))"

section \<open>Balance repository (repositories/balance.go)\<close>

definition balanceFilter :: "string \<Rightarrow> string option \<Rightarrow> Balance \<Rightarrow> bool" where
  "balanceFilter userID groupID b \<longleftrightarrow> b_UserID b = userID \<and> b_GroupID b = groupID"

definition GetByUserAndGroup :: "database \<Rightarrow> string \<Rightarrow> string option \<Rightarrow> error + Balance" where
  "GetByUserAndGroup db userID groupID =
     (case find (balanceFilter userID groupID) (balances db) of
        None \<Rightarrow> Inl ErrBalanceNotFound
      | Some balance \<Rightarrow> Inr balance)"

text \<open>
  \<^verbatim>\<open>UpdateBalance\<close> is an upsert: \<^verbatim>\<open>$inc\<close> of balance and version and
  \<^verbatim>\<open>$set\<close> of the timestamp on the first matching document; when none matches, a new
  document is inserted from the filter, \<^verbatim>\<open>$setOnInsert\<close> and the increments applied
  to absent (zero) fields.
\<close>

definition UpdateBalance :: "nat \<Rightarrow> database \<Rightarrow> string \<Rightarrow> string option \<Rightarrow> real \<Rightarrow> database" where
  "UpdateBalance now db userID groupID amount =
     (case UpdateOne (balanceFilter userID groupID)
             (\<lambda>b. b\<lparr>b_Balance := b_Balance b + amount, b_Version := b_Version b + 1,
                     b_UpdatedAt := now\<rparr>)
             (balances db) of
        Some bs \<Rightarrow> db\<lparr>balances := bs\<rparr>
      | None \<Rightarrow>
          db\<lparr>balances := balances db @
                [\<lparr>b_UserID = userID, b_GroupID = groupID, b_Balance = amount,
                  b_Currency = ''USD'', b_UpdatedAt = now, b_Version = 1\<rparr>]\<rparr>)"

definition UpdateBalanceWithVersion :: "nat \<Rightarrow> database \<Rightarrow> Balance \<Rightarrow> error option \<times> database" where
  "UpdateBalanceWithVersion now db balance =
     (let currentVersion = b_Version balance;
          balance = balance\<lparr>b_Version := b_Version balance + 1, b_UpdatedAt := now\<rparr>
      in case UpdateOne
                (\<lambda>b. b_UserID b = b_UserID balance \<and> b_Version b = currentVersion
                      \<and> b_GroupID b = b_GroupID balance)
                (\<lambda>b. b\<lparr>b_Balance := b_Balance balance, b_Version := b_Version balance,
                        b_UpdatedAt := b_UpdatedAt balance\<rparr>)
                (balances db) of
           None \<Rightarrow> (Some ErrOptimisticLockFailure, db)
         | Some bs \<Rightarrow> (None, db\<lparr>balances := bs\<rparr>))"

definition CreateBalanceHistory :: "nat \<Rightarrow> database \<Rightarrow> BalanceHistory \<Rightarrow> database" where
  "CreateBalanceHistory now db h = db\<lparr>history := history db @ [h\<lparr>h_CreatedAt := now\<rparr>]\<rparr>"

section \<open>Settlement repository (repositories/settlement.go)\<close>

definition settlement_GetByID :: "database \<Rightarrow> string \<Rightarrow> error + Settlement" where
  "settlement_GetByID db settlementID =
     (case find (\<lambda>s. SettlementID s = settlementID) (settlements db) of
        None \<Rightarrow> Inl ErrSettlementNotFound
      | Some settlement \<Rightarrow> Inr settlement)"

definition settlement_Create :: "nat \<Rightarrow> database \<Rightarrow> Settlement \<Rightarrow> (error + Settlement) \<times> database" where
  "settlement_Create now db settlement =
     (let settlement = settlement\<lparr>s_CreatedAt := now, s_UpdatedAt := now,
                                   s_Status := SettlementPending\<rparr>
      in (Inr settlement, db\<lparr>settlements := settlements db @ [settlement]\<rparr>))"

definition MarkCompleted :: "nat \<Rightarrow> database \<Rightarrow> string \<Rightarrow> string option \<Rightarrow> error + database" where
  "MarkCompleted now db settlementID transactionID =
     (case UpdateOne (\<lambda>s. SettlementID s = settlementID)
             (\<lambda>s. s\<lparr>s_Status := SettlementCompleted, s_CompletedAt := Some now,
                     s_UpdatedAt := now, s_TransactionID := transactionID\<rparr>)
             (settlements db) of
        None \<Rightarrow> Inl ErrSettlementNotFound
      | Some ss \<Rightarrow> Inr (db\<lparr>settlements := ss\<rparr>))"

definition MarkFailed :: "nat \<Rightarrow> database \<Rightarrow> string \<Rightarrow> string \<Rightarrow> error + database" where
  "MarkFailed now db settlementID reason =
     (case UpdateOne (\<lambda>s. SettlementID s = settlementID)
             (\<lambda>s. s\<lparr>s_Status := SettlementFailed, s_FailedAt := Some now,
                     s_FailureReason := Some reason, s_UpdatedAt := now\<rparr>)
             (settlements db) of
        None \<Rightarrow> Inl ErrSettlementNotFound
      | Some ss \<Rightarrow> Inr (db\<lparr>settlements := ss\<rparr>))"

definition MarkCancelled :: "nat \<Rightarrow> database \<Rightarrow> string \<Rightarrow> error + database" where
  "MarkCancelled now db settlementID =
     (case UpdateOne (\<lambda>s. SettlementID s = settlementID)
             (\<lambda>s. s\<lparr>s_Status := SettlementCancelled, s_UpdatedAt := now\<rparr>)
             (settlements db) of
        None \<Rightarrow> Inl ErrSettlementNotFound
      | Some ss \<Rightarrow> Inr (db\<lparr>settlements := ss\<rparr>))"

section \<open>User, group and expense repositories\<close>

definition ExistMultiple :: "database \<Rightarrow> string list \<Rightarrow> string list" where
  "ExistMultiple db userIDs = filter (\<lambda>id. id \<notin> set (users db)) userIDs"

definition GetNonMembers :: "database \<Rightarrow> string \<Rightarrow> string list \<Rightarrow> string list" where
  "GetNonMembers db groupID userIDs =
     (let memberIDs =
            concat (map (\<lambda>g. map gm_UserID
                                (filter (\<lambda>m. gm_UserID m \<in> set userIDs \<and> gm_IsActive m)
                                        (g_Members g)))
                        (filter (\<lambda>g. GroupID g = groupID) (groups db)))
      in filter (\<lambda>id. id \<notin> set memberIDs) userIDs)"

definition expense_CreateExpense :: "nat \<Rightarrow> database \<Rightarrow> Expense \<Rightarrow> Expense \<times> database" where
  "expense_CreateExpense now db expense =
     (let expense = expense\<lparr>e_CreatedAt := now, e_UpdatedAt := now, IsDeleted := False\<rparr>
      in (expense, db\<lparr>expenses := expenses db @ [expense]\<rparr>))"

definition expense_GetByID :: "database \<Rightarrow> string \<Rightarrow> error + Expense" where
  "expense_GetByID db expenseID =
     (case find (\<lambda>e. ExpenseID e = expenseID \<and> IsDeleted e = False) (expenses db) of
        None \<Rightarrow> Inl ErrExpenseNotFound
      | Some expense \<Rightarrow> Inr expense)"

section \<open>Expense service (services/expense.go)\<close>

text \<open>
  What one call of \<^verbatim>\<open>CreateExpense\<close> takes from its environment: the clock, the fresh
  identifier, and the orders in which Go ranges over the three maps it builds.
\<close>

record Env =
  time_Now :: nat
  uuid_New :: string
  rangeUsers :: "string list"
  rangeMembers :: "string list"
  rangeParticipants :: "string list"

definition userIDSet :: "Expense \<Rightarrow> string list" where
  "userIDSet expense =
     remdups (CreatorID expense # map pb_UserID (e_PaidBy expense)
                @ map ss_UserID (sd_Details (Split expense)))"

text \<open>
  \<^verbatim>\<open>validateUsersExist\<close> and \<^verbatim>\<open>validateGroupMembership\<close> each collect the
  keys of \<open>userIDSet\<close> into the slice \<^verbatim>\<open>userIDs\<close> by ranging over the map, and
  \<^verbatim>\<open>calculateEqualShares\<close> ranges over \<open>participants\<close>: an environment is one the
  call can meet when its three orders are range orders of these maps.
\<close>

definition validEnv :: "Env \<Rightarrow> Expense \<Rightarrow> bool" where
  "validEnv env expense \<longleftrightarrow>
     rangeOrder (rangeUsers env) (userIDSet expense)
     \<and> rangeOrder (rangeMembers env) (userIDSet expense)
     \<and> rangeOrder (rangeParticipants env) (participants expense)"

definition validateUsersExist :: "string list \<Rightarrow> database \<Rightarrow> Expense \<Rightarrow> error option" where
  "validateUsersExist userIDs db expense =
     (case ExistMultiple db userIDs of
        [] \<Rightarrow> None
      | missing # _ \<Rightarrow> Some (ErrUserDoesNotExist missing))"

definition validateGroupMembership ::
  "string list \<Rightarrow> database \<Rightarrow> string \<Rightarrow> Expense \<Rightarrow> error option" where
  "validateGroupMembership userIDs db groupID expense =
     (case GetNonMembers db groupID userIDs of
        [] \<Rightarrow> None
      | nonMember # _ \<Rightarrow> Some (ErrNotGroupMember nonMember groupID))"

text \<open>The inner loop of \<^verbatim>\<open>updateBalances\<close> over the payers, for one share.\<close>

fun updateBalancesPayers ::
  "nat \<Rightarrow> string option \<Rightarrow> SplitShare \<Rightarrow> PaidBy list \<Rightarrow> database \<Rightarrow> database" where
  "updateBalancesPayers now groupID share [] db = db"
| "updateBalancesPayers now groupID share (pb # pbs) db =
     (if pb_UserID pb = ss_UserID share then
        (let netChange = fsub (pb_Amount pb) (ss_Value share)
         in updateBalancesPayers now groupID share pbs
              (UpdateBalance now db (pb_UserID pb) groupID (toReal netChange)))
      else if flt (f64 0) (ss_Value share) then
        updateBalancesPayers now groupID share pbs
          (UpdateBalance now
             (UpdateBalance now db (ss_UserID share) groupID (toReal (fneg (ss_Value share))))
             (pb_UserID pb) groupID (toReal (ss_Value share)))
      else updateBalancesPayers now groupID share pbs db)"

text \<open>The outer loop over the resolved shares.\<close>

fun updateBalancesShares ::
  "nat \<Rightarrow> string option \<Rightarrow> PaidBy list \<Rightarrow> SplitShare list \<Rightarrow> database \<Rightarrow> database" where
  "updateBalancesShares now groupID paidBy [] db = db"
| "updateBalancesShares now groupID paidBy (share # rest) db =
     updateBalancesShares now groupID paidBy rest
       (updateBalancesPayers now groupID share paidBy db)"

definition updateBalances :: "nat \<Rightarrow> Expense \<Rightarrow> database \<Rightarrow> database" where
  "updateBalances now expense db =
     updateBalancesShares now (e_GroupID expense) (e_PaidBy expense)
       (sd_Details (Split expense)) db"

definition CreateExpense :: "Env \<Rightarrow> database \<Rightarrow> Expense \<Rightarrow> (error + Expense) \<times> database" where
  "CreateExpense env db expense =
     (case validateExpense expense of
        Some err \<Rightarrow> (Inl err, db)
      | None \<Rightarrow>
     (case validateUsersExist (rangeUsers env) db expense of
        Some err \<Rightarrow> (Inl err, db)
      | None \<Rightarrow>
     (case (case e_GroupID expense of
              None \<Rightarrow> None
            | Some groupID \<Rightarrow> validateGroupMembership (rangeMembers env) db groupID expense) of
        Some err \<Rightarrow> (Inl err, db)
      | None \<Rightarrow>
     (case calculateShares (rangeParticipants env) expense of
        Inl err \<Rightarrow> (Inl err, db)
      | Inr shares \<Rightarrow>
          (let expense = expense\<lparr>Split := (Split expense)\<lparr>sd_Details := shares\<rparr>\<rparr>;
               expense = expense\<lparr>ExpenseID := uuid_New env, e_CreatedAt := time_Now env,
                                 e_UpdatedAt := time_Now env\<rparr>
           in case WithTransaction
                     (\<lambda>sess. case expense_CreateExpense (time_Now env) sess expense of
                                (createdExpense, sess') \<Rightarrow>
                                  Inr (updateBalances (time_Now env) createdExpense sess'))
                     db of
                (Some err, db') \<Rightarrow> (Inl (ErrTransactionFailed err), db')
              | (None, db') \<Rightarrow> (Inr expense, db'))))))"

definition GetExpense :: "database \<Rightarrow> string \<Rightarrow> string \<Rightarrow> (error + Expense) \<times> database" where
  "GetExpense db expenseID userID =
     (case expense_GetByID db expenseID of
        Inl err \<Rightarrow> (Inl err, db)
      | Inr expense \<Rightarrow>
          (let hasAccess = (CreatorID expense = userID);
               hasAccess = (if \<not> hasAccess
                            then list_ex (\<lambda>pb. pb_UserID pb = userID) (e_PaidBy expense)
                            else hasAccess);
               hasAccess = (if \<not> hasAccess
                            then list_ex (\<lambda>share. ss_UserID share = userID)
                                   (sd_Details (Split expense))
                            else hasAccess)
           in if \<not> hasAccess then (Inl ErrNoAccess, db) else (Inr expense, db)))"

section \<open>Settlement service\<close>

definition CreateSettlement ::
  "nat \<Rightarrow> string \<Rightarrow> database \<Rightarrow> SettlementRequest \<Rightarrow> (error + Settlement) \<times> database" where
  "CreateSettlement now uuid db req =
     (if rq_FromUserID req = rq_ToUserID req then (Inl ErrInvalidSettlement, db)
      else case ExistMultiple db [rq_FromUserID req, rq_ToUserID req] of
             missing # _ \<Rightarrow> (Inl (ErrUserDoesNotExist missing), db)
           | [] \<Rightarrow>
               if rq_Amount req \<le> 0 then (Inl ErrAmountNotPositive, db)
               else settlement_Create now db
                      \<lparr>SettlementID = uuid, s_FromUserID = rq_FromUserID req,
                       s_ToUserID = rq_ToUserID req, s_GroupID = rq_GroupID req,
                       s_Amount = rq_Amount req, s_Currency = rq_Currency req,
                       s_Status = SettlementPending, s_Method = rq_Method req,
                       s_Description = rq_Description req, s_TransactionID = None,
                       s_CreatedAt = now, s_UpdatedAt = now, s_CompletedAt = None,
                       s_FailedAt = None, s_FailureReason = None\<rparr>)"

definition GetSettlement :: "database \<Rightarrow> string \<Rightarrow> string \<Rightarrow> (error + Settlement) \<times> database" where
  "GetSettlement db settlementID userID =
     (case settlement_GetByID db settlementID of
        Inl err \<Rightarrow> (Inl err, db)
      | Inr settlement \<Rightarrow>
          if s_FromUserID settlement \<noteq> userID \<and> s_ToUserID settlement \<noteq> userID
          then (Inl ErrSettlementNotFound, db)
          else (Inr settlement, db))"

definition fromHistory :: "nat \<Rightarrow> string \<Rightarrow> Settlement \<Rightarrow> BalanceHistory" where
  "fromHistory now settlementID settlement =
     \<lparr>h_UserID = s_FromUserID settlement, h_GroupID = s_GroupID settlement,
      h_Amount = s_Amount settlement, h_Currency = s_Currency settlement,
      h_Type = BalanceChangeSettlement, h_ReferenceID = settlementID,
      h_Description = ''Settlement payment to user'', h_CreatedAt = now\<rparr>"

definition toHistory :: "nat \<Rightarrow> string \<Rightarrow> Settlement \<Rightarrow> BalanceHistory" where
  "toHistory now settlementID settlement =
     \<lparr>h_UserID = s_ToUserID settlement, h_GroupID = s_GroupID settlement,
      h_Amount = - s_Amount settlement, h_Currency = s_Currency settlement,
      h_Type = BalanceChangeSettlement, h_ReferenceID = settlementID,
      h_Description = ''Settlement received from user'', h_CreatedAt = now\<rparr>"

definition CompleteSettlement ::
  "nat \<Rightarrow> database \<Rightarrow> string \<Rightarrow> string \<Rightarrow> string option \<Rightarrow> error option \<times> database" where
  "CompleteSettlement now db settlementID userID transactionID =
     (case settlement_GetByID db settlementID of
        Inl err \<Rightarrow> (Some err, db)
      | Inr settlement \<Rightarrow>
          if s_FromUserID settlement \<noteq> userID then (Some ErrOnlyPayerCanComplete, db)
          else if s_Status settlement \<noteq> SettlementPending then (Some ErrSettlementCompleted, db)
          else
            WithTransaction
              (\<lambda>sess.
                 case MarkCompleted now sess settlementID transactionID of
                   Inl err \<Rightarrow> Inl err
                 | Inr sess \<Rightarrow>
                     (let sess = UpdateBalance now sess (s_FromUserID settlement)
                                   (s_GroupID settlement) (s_Amount settlement);
                          sess = UpdateBalance now sess (s_ToUserID settlement)
                                   (s_GroupID settlement) (- s_Amount settlement);
                          sess = CreateBalanceHistory now sess
                                   (fromHistory now settlementID settlement);
                          sess = CreateBalanceHistory now sess
                                   (toHistory now settlementID settlement)
                      in Inr sess))
              db)"

definition CancelSettlement :: "nat \<Rightarrow> database \<Rightarrow> string \<Rightarrow> string \<Rightarrow> error option \<times> database" where
  "CancelSettlement now db settlementID userID =
     (case settlement_GetByID db settlementID of
        Inl err \<Rightarrow> (Some err, db)
      | Inr settlement \<Rightarrow>
          if s_FromUserID settlement \<noteq> userID \<and> s_ToUserID settlement \<noteq> userID
          then (Some ErrSettlementNotFound, db)
          else if s_Status settlement \<noteq> SettlementPending then (Some ErrCanOnlyCancelPending, db)
          else (case MarkCancelled now db settlementID of
                  Inl err \<Rightarrow> (Some err, db)
                | Inr db' \<Rightarrow> (None, db')))"

section \<open>Notions used to state the properties\<close>

text \<open>
  The amount of a (user, scope) pair as the service layer reads it: the stored balance, or
  zero when no row exists (\<^verbatim>\<open>GetUserBalanceInGroup\<close> substitutes a zero balance for
  \<^verbatim>\<open>ErrBalanceNotFound\<close>).
\<close>

definition balanceAmount :: "database \<Rightarrow> string \<Rightarrow> string option \<Rightarrow> real" where
  "balanceAmount db userID groupID =
     (case GetByUserAndGroup db userID groupID of Inl err \<Rightarrow> 0 | Inr balance \<Rightarrow> b_Balance balance)"

text \<open>The data-model invariant of balances: one row per (user, scope).\<close>

definition uniqueBalances :: "database \<Rightarrow> bool" where
  "uniqueBalances db \<longleftrightarrow> distinct (map (\<lambda>b. (b_UserID b, b_GroupID b)) (balances db))"

text \<open>
  The structural preconditions of an expense in the specification's words, read on the
  numbers the expense carries: amount positive, at least one payer, every payer amount
  positive, payer amounts summing to the amount within 0.01, and one of the four known
  split types.
\<close>

definition structuralPreconditions :: "Expense \<Rightarrow> bool" where
  "structuralPreconditions expense \<longleftrightarrow>
     flt (f64 0) (e_Amount expense)
     \<and> e_PaidBy expense \<noteq> []
     \<and> list_all (\<lambda>pb. flt (f64 0) (pb_Amount pb)) (e_PaidBy expense)
     \<and> \<bar>sum_list (map (\<lambda>pb. toReal (pb_Amount pb)) (e_PaidBy expense))
          - toReal (e_Amount expense)\<bar> \<le> 1 / 100
     \<and> sd_Type (Split expense) \<in> {SplitEqual, SplitExact, SplitPercentage, SplitShares}"

text \<open>
  The same preconditions with the tests the code makes: no amount is \<^verbatim>\<open><= 0\<close>, and
  the \<^verbatim>\<open>float64\<close> running sum of the payer amounts, minus the amount, is in absolute
  value not above the \<^verbatim>\<open>float64\<close> constant \<^verbatim>\<open>0.01\<close>.
\<close>

definition floatPreconditions :: "Expense \<Rightarrow> bool" where
  "floatPreconditions expense \<longleftrightarrow>
     \<not> fle (e_Amount expense) (f64 0)
     \<and> e_PaidBy expense \<noteq> []
     \<and> list_all (\<lambda>pb. \<not> fle (pb_Amount pb) (f64 0)) (e_PaidBy expense)
     \<and> \<not> flt (f64 (1 / 100))
              (fabs (fsub (fsum (map pb_Amount (e_PaidBy expense))) (e_Amount expense)))
     \<and> sd_Type (Split expense) \<in> {SplitEqual, SplitExact, SplitPercentage, SplitShares}"

text \<open>
  The conditions of a percentage split in the specification's words, read on the numbers
  the details carry: every value in (0, 100] and the values summing to 100 within 0.01.
\<close>

definition percentagesValid :: "SplitShare list \<Rightarrow> bool" where
  "percentagesValid details \<longleftrightarrow>
     list_all (\<lambda>s. flt (f64 0) (ss_Value s) \<and> fle (ss_Value s) (f64 100)) details
     \<and> \<bar>sum_list (map (\<lambda>s. toReal (ss_Value s)) details) - 100\<bar> \<le> 1 / 100"

text \<open>
  What one pass of the inner loop of \<^verbatim>\<open>updateBalances\<close> (one share, one payer) adds
  to the balance of user \<open>u\<close>.
\<close>

definition payerDelta :: "SplitShare \<Rightarrow> PaidBy \<Rightarrow> string \<Rightarrow> real" where
  "payerDelta share pb u =
     (if pb_UserID pb = ss_UserID share
      then (if u = pb_UserID pb then toReal (fsub (pb_Amount pb) (ss_Value share)) else 0)
      else if flt (f64 0) (ss_Value share)
      then (if u = ss_UserID share then toReal (fneg (ss_Value share)) else 0)
           + (if u = pb_UserID pb then toReal (ss_Value share) else 0)
      else 0)"

section \<open>Concrete data\<close>

definition mkExpense :: "float64 \<Rightarrow> PaidBy list \<Rightarrow> SplitType \<Rightarrow> SplitShare list \<Rightarrow> Expense" where
  "mkExpense amount paidBy ty details =
     \<lparr>ExpenseID = '''', e_GroupID = None, CreatorID = ''A'', Title = ''dinner'',
      e_Amount = amount, e_Currency = ''USD'', e_PaidBy = paidBy,
      Split = \<lparr>sd_Type = ty, sd_Details = details\<rparr>,
      e_CreatedAt = 0, e_UpdatedAt = 0, IsDeleted = False\<rparr>"

definition payerA :: "float64 \<Rightarrow> PaidBy list" where
  "payerA amount = [\<lparr>pb_UserID = ''A'', pb_Amount = amount\<rparr>]"

definition detailsBC :: "float64 \<Rightarrow> float64 \<Rightarrow> SplitShare list" where
  "detailsBC b c = [\<lparr>ss_UserID = ''B'', ss_Value = b\<rparr>, \<lparr>ss_UserID = ''C'', ss_Value = c\<rparr>]"

text \<open>The scenario: 90.00 paid by A, split equally among A, B and C.\<close>

definition scenario :: Expense where
  "scenario = mkExpense (Finite 90) (payerA (Finite 90)) SplitEqual
                (\<lparr>ss_UserID = ''A'', ss_Value = Finite 0\<rparr> # detailsBC (Finite 0) (Finite 0))"

definition resolved30 :: "SplitShare list" where
  "resolved30 = \<lparr>ss_UserID = ''A'', ss_Value = Finite 30\<rparr> # detailsBC (Finite 30) (Finite 30)"

definition pctExpense :: "float64 list \<Rightarrow> Expense" where
  "pctExpense vs = mkExpense (Finite 200) (payerA (Finite 200)) SplitPercentage
                     (map (\<lambda>v. \<lparr>ss_UserID = ''U'', ss_Value = v\<rparr>) vs)"

text \<open>An amount paid by A and split equally among the given users.\<close>

definition equalExpense :: "float64 \<Rightarrow> string list \<Rightarrow> Expense" where
  "equalExpense amount userIDs =
     mkExpense amount (payerA amount) SplitEqual
       (map (\<lambda>u. \<lparr>ss_UserID = u, ss_Value = Finite 0\<rparr>) userIDs)"

text \<open>
  Values at the tolerance: the decimals 0.04 and 99.97, which add up to 100.01, and the
  decimals 50, 50.01 and 3.552713678800501e-15 (the 48th negative power of two), which
  add up to more.
\<close>

definition nearBelow :: "float64 list" where
  "nearBelow = [f64 (4 / 100), f64 (9997 / 100)]"

definition nearAbove :: "float64 list" where
  "nearAbove = [Finite 50, f64 (5001 / 100), Finite (1 / 281474976710656)]"

definition paidByABC :: "float64 list \<Rightarrow> PaidBy list" where
  "paidByABC vs = map2 (\<lambda>u v. \<lparr>pb_UserID = u, pb_Amount = v\<rparr>) [''A'', ''B'', ''C''] vs"

definition emptyDB :: database where
  "emptyDB = \<lparr>users = [], groups = [], expenses = [], balances = [], history = [],
              settlements = []\<rparr>"

definition dbUsers :: database where
  "dbUsers = emptyDB\<lparr>users := [''A'', ''B'', ''C'']\<rparr>"

definition env0 :: Env where
  "env0 = \<lparr>time_Now = 7, uuid_New = ''e1'', rangeUsers = [''A'', ''B'', ''C''],
           rangeMembers = [''A'', ''B'', ''C''], rangeParticipants = [''A'', ''B'', ''C'']\<rparr>"

definition storedScenario :: Expense where
  "storedScenario = scenario\<lparr>Split := (Split scenario)\<lparr>sd_Details := resolved30\<rparr>,
                             ExpenseID := ''e1''\<rparr>"

definition dbExpense :: database where
  "dbExpense = dbUsers\<lparr>expenses := [storedScenario]\<rparr>"

text \<open>A settlement of 50.00 from X to Y, pending and completed.\<close>

definition settlementXY :: Settlement where
  "settlementXY =
     \<lparr>SettlementID = ''s1'', s_FromUserID = ''X'', s_ToUserID = ''Y'', s_GroupID = None,
      s_Amount = 50, s_Currency = ''USD'', s_Status = SettlementPending, s_Method = ''cash'',
      s_Description = '''', s_TransactionID = None, s_CreatedAt = 1, s_UpdatedAt = 1,
      s_CompletedAt = None, s_FailedAt = None, s_FailureReason = None\<rparr>"

definition dbPending :: database where
  "dbPending = emptyDB\<lparr>settlements := [settlementXY]\<rparr>"

definition doneXY :: Settlement where
  "doneXY = settlementXY\<lparr>s_Status := SettlementCompleted, s_CompletedAt := Some 2,
                          s_UpdatedAt := 2\<rparr>"

definition dbDone :: database where
  "dbDone = emptyDB\<lparr>settlements := [doneXY]\<rparr>"

definition balanceX :: Balance where
  "balanceX = \<lparr>b_UserID = ''X'', b_GroupID = None, b_Balance = 10, b_Currency = ''USD'',
               b_UpdatedAt = 1, b_Version = 3\<rparr>"

definition dbBalance :: database where
  "dbBalance = emptyDB\<lparr>balances := [balanceX]\<rparr>"

text \<open>A row whose version is the largest Go \<^verbatim>\<open>int\<close>.\<close>

definition balanceMax :: Balance where
  "balanceMax = balanceX\<lparr>b_Version := 9223372036854775807\<rparr>"

lemmas expense_examples =
  scenario_def resolved30_def pctExpense_def mkExpense_def payerA_def detailsBC_def
  equalExpense_def paidByABC_def

lemmas store_examples =
  emptyDB_def dbUsers_def env0_def storedScenario_def dbExpense_def settlementXY_def
  dbPending_def doneXY_def dbDone_def balanceX_def dbBalance_def

section \<open>Evaluating float64 operations\<close>

lemmas float_eval =
  f64_def ofNat_def fl_def round64_def ilog2_def roundEven_def pow2_def maxFloat64_def
  fsub_def fle_def Let_def compute_bitlen

lemma f64_0 [simp]: "f64 0 = Finite 0"
  by (simp add: f64_def fl_def round64_def maxFloat64_def)

lemma f64_100 [simp]: "f64 100 = Finite 100"
  by (simp add: float_eval)

lemma f64_hundredth: "f64 (1 / 100) = Finite (5764607523034235 / 576460752303423488)"
  by (simp add: float_eval)

lemma ofNat_small:
  "ofNat 3 = Finite 3" "ofNat 6 = Finite 6" "ofNat 7 = Finite 7"
  by (simp_all add: float_eval)

section \<open>The validation loops as running sums\<close>

lemma sumPaid_eq:
  "sumPaid pbs t =
     (case find (\<lambda>pb. fle (pb_Amount pb) (f64 0)) pbs of
        Some pb \<Rightarrow> Inl (ErrInvalidPayerAmount (pb_UserID pb))
      | None \<Rightarrow> Inr (foldl fadd t (map pb_Amount pbs)))"
  by (induction pbs arbitrary: t) (auto split: option.splits)

lemma sumExact_eq:
  "sumExact xs t =
     (case find (\<lambda>s. fle (ss_Value s) (f64 0)) xs of
        Some s \<Rightarrow> Inl (ErrExactInvalidAmount (ss_Value s) (ss_UserID s))
      | None \<Rightarrow> Inr (foldl fadd t (map ss_Value xs)))"
  by (induction xs arbitrary: t) (auto split: option.splits)

lemma sumPercentage_eq:
  "sumPercentage xs t =
     (case find (\<lambda>s. fle (ss_Value s) (f64 0) \<or> flt (f64 100) (ss_Value s)) xs of
        Some s \<Rightarrow> Inl (ErrInvalidPercentage (ss_Value s) (ss_UserID s))
      | None \<Rightarrow> Inr (foldl fadd t (map ss_Value xs)))"
  by (induction xs arbitrary: t) (auto split: option.splits)

lemma find_None_list_ex: "(find P xs = None) = (\<not> list_ex P xs)"
  by (auto simp: find_None_iff list_ex_iff)

lemma find_None_list_all: "(find P xs = None) = list_all (\<lambda>x. \<not> P x) xs"
  by (induction xs) auto

lemma validateExpense_iff: "validateExpense e = None \<longleftrightarrow> floatPreconditions e"
  using find_None_list_all[of "\<lambda>pb. fle (pb_Amount pb) (Finite 0)" "e_PaidBy e"]
  by (auto simp: validateExpense_def floatPreconditions_def sumPaid_eq fsum_def
           split: option.splits)

section \<open>The remainder-absorbing loops\<close>

lemma resolveShares_snoc:
  "resolveShares r A (xs @ [x]) t =
     map (\<lambda>s. \<lparr>ss_UserID = ss_UserID s, ss_Value = fmul (r (ss_Value s)) A\<rparr>) xs
     @ [\<lparr>ss_UserID = ss_UserID x,
         ss_Value = fsub A (foldl fadd t (map (\<lambda>s. fmul (r (ss_Value s)) A) xs))\<rparr>]"
proof (induction xs arbitrary: t)
  case Nil
  then show ?case by simp
next
  case (Cons a xs)
  obtain y ys where "xs @ [x] = y # ys" by (cases xs) auto
  then have "resolveShares r A (a # xs @ [x]) t =
     \<lparr>ss_UserID = ss_UserID a, ss_Value = fmul (r (ss_Value a)) A\<rparr>
       # resolveShares r A (xs @ [x]) (fadd t (fmul (r (ss_Value a)) A))"
    by (simp add: Let_def)
  then show ?case using Cons.IH by simp
qed




section \<open>Split calculator: the properties\<close>


text \<open>
  Seven participants and the amount 17993876720759868: the quotient is
  2570553817251409.5, the computed remainder is 2, and the first participant visited
  receives 2570553817251411.5.
\<close>

lemma large_participants:
  "participants (equalExpense a [''A'', ''B'', ''C'', ''D'', ''E'', ''F'', ''G''])
     = [''A'', ''B'', ''C'', ''D'', ''E'', ''F'', ''G'']"
  by (simp add: participants_def expense_examples)

lemma large_quotient:
  "fdiv (Finite 17993876720759868) (Finite 7) = Finite (5141107634502819 / 2)"
  by (simp add: float_eval)

lemma large_product:
  "fmul (Finite (5141107634502819 / 2)) (Finite 7) = Finite 17993876720759866"
  by (simp add: float_eval)

lemma large_remainder:
  "fsub (Finite 17993876720759868) (Finite 17993876720759866) = Finite 2"
  by (simp add: float_eval)

lemma large_first:
  "fadd (Finite (5141107634502819 / 2)) (Finite 2) = Finite (5141107634502823 / 2)"
  by (simp add: float_eval)

lemma large_shares:
  "calculateEqualShares [''B'', ''A'', ''C'', ''D'', ''E'', ''F'', ''G'']
     (equalExpense (Finite 17993876720759868) [''A'', ''B'', ''C'', ''D'', ''E'', ''F'', ''G''])
   = Inr (\<lparr>ss_UserID = ''B'', ss_Value = Finite (5141107634502823 / 2)\<rparr>
          # map (\<lambda>u. \<lparr>ss_UserID = u, ss_Value = Finite (5141107634502819 / 2)\<rparr>)
                [''A'', ''C'', ''D'', ''E'', ''F'', ''G''])"
proof -
  let ?e = "equalExpense (Finite 17993876720759868) [''A'', ''B'', ''C'', ''D'', ''E'', ''F'', ''G'']"
  have n: "length (participants ?e) = 7"
    by (simp add: large_participants)
  have a: "e_Amount ?e = Finite 17993876720759868"
    by (simp add: expense_examples)
  show ?thesis
    unfolding calculateEqualShares_def Let_def n a
    by (simp add: ofNat_small large_quotient large_product large_remainder large_first
             del: fdiv.simps fmul.simps fadd.simps)
qed






text \<open>
  Claim C1, evaluated on the code.  The expense of 17993876720759868 paid by A and split
  equally among seven participants passes validation.  Its resolved shares are
  2570553817251411.5 for the first participant visited and 2570553817251409.5 for each
  of the other six: their sum is the amount plus one half, and their \<^verbatim>\<open>float64\<close>
  running sum is the amount plus 2, both further from the amount than 0.01.
\<close>

theorem large_equal_split_misses_amount:
  "validateExpense (equalExpense (Finite 17993876720759868)
                      [''A'', ''B'', ''C'', ''D'', ''E'', ''F'', ''G'']) = None
   \<and> rangeOrder [''B'', ''A'', ''C'', ''D'', ''E'', ''F'', ''G'']
        (participants (equalExpense (Finite 17993876720759868)
                         [''A'', ''B'', ''C'', ''D'', ''E'', ''F'', ''G'']))
   \<and> calculateShares [''B'', ''A'', ''C'', ''D'', ''E'', ''F'', ''G'']
        (equalExpense (Finite 17993876720759868) [''A'', ''B'', ''C'', ''D'', ''E'', ''F'', ''G''])
      = Inr (\<lparr>ss_UserID = ''B'', ss_Value = Finite (5141107634502823 / 2)\<rparr>
             # map (\<lambda>u. \<lparr>ss_UserID = u, ss_Value = Finite (5141107634502819 / 2)\<rparr>)
                   [''A'', ''C'', ''D'', ''E'', ''F'', ''G''])
   \<and> sum_list (map (\<lambda>s. toReal (ss_Value s))
         (projr (calculateShares [''B'', ''A'', ''C'', ''D'', ''E'', ''F'', ''G'']
                   (equalExpense (Finite 17993876720759868)
                      [''A'', ''B'', ''C'', ''D'', ''E'', ''F'', ''G'']))))
       = 17993876720759868 + 1 / 2
   \<and> fsum (map ss_Value
         (projr (calculateShares [''B'', ''A'', ''C'', ''D'', ''E'', ''F'', ''G'']
                   (equalExpense (Finite 17993876720759868)
                      [''A'', ''B'', ''C'', ''D'', ''E'', ''F'', ''G'']))))
       = Finite (17993876720759868 + 2)"
proof -
  let ?e = "equalExpense (Finite 17993876720759868) [''A'', ''B'', ''C'', ''D'', ''E'', ''F'', ''G'']"
  let ?s = "Finite (5141107634502819 / 2)"
  have v: "validateExpense ?e = None"
  proof -
    have p: "fadd (Finite 0) (Finite 17993876720759868) = Finite 17993876720759868"
      by (simp add: float_eval)
    have d: "fsub (Finite 17993876720759868) (Finite 17993876720759868) = Finite 0"
      by (simp add: float_eval)
    show ?thesis
      by (simp add: validateExpense_def expense_examples fle_def p d f64_hundredth
               del: fadd.simps)
  qed
  have r: "rangeOrder [''B'', ''A'', ''C'', ''D'', ''E'', ''F'', ''G''] (participants ?e)"
    by (simp add: rangeOrder_def large_participants insert_commute)
  have t: "sd_Type (Split ?e) = SplitEqual"
    by (simp add: expense_examples)
  have c: "calculateShares [''B'', ''A'', ''C'', ''D'', ''E'', ''F'', ''G''] ?e
      = Inr (\<lparr>ss_UserID = ''B'', ss_Value = Finite (5141107634502823 / 2)\<rparr>
             # map (\<lambda>u. \<lparr>ss_UserID = u, ss_Value = ?s\<rparr>)
                   [''A'', ''C'', ''D'', ''E'', ''F'', ''G''])"
    unfolding calculateShares_def t by (simp add: large_shares)
  have 1: "fadd (Finite 0) (Finite (5141107634502823 / 2)) = Finite (5141107634502823 / 2)"
    by (simp add: float_eval)
  have 2: "fadd (Finite (5141107634502823 / 2)) ?s = Finite 5141107634502821"
    by (simp add: float_eval)
  have 3: "fadd (Finite 5141107634502821) ?s = Finite 7711661451754230"
    by (simp add: float_eval)
  have 4: "fadd (Finite 7711661451754230) ?s = Finite 10282215269005640"
    by (simp add: float_eval)
  have 5: "fadd (Finite 10282215269005640) ?s = Finite 12852769086257050"
    by (simp add: float_eval)
  have 6: "fadd (Finite 12852769086257050) ?s = Finite 15423322903508460"
    by (simp add: float_eval)
  have 7: "fadd (Finite 15423322903508460) ?s = Finite 17993876720759870"
    by (simp add: float_eval)
  have rp: "replicate 6 ?s = [?s, ?s, ?s, ?s, ?s, ?s]"
    by (simp add: numeral_eq_Suc)
  have f: "fsum (Finite (5141107634502823 / 2) # replicate 6 ?s) = Finite 17993876720759870"
    unfolding fsum_def rp by (simp add: 1 2 3 4 5 6 7 del: fadd.simps)
  have x: "sum_list (map (\<lambda>s. toReal (ss_Value s))
             (projr (calculateShares [''B'', ''A'', ''C'', ''D'', ''E'', ''F'', ''G''] ?e)))
           = 17993876720759868 + 1 / 2"
    by (simp add: c)
  have y: "fsum (map ss_Value
             (projr (calculateShares [''B'', ''A'', ''C'', ''D'', ''E'', ''F'', ''G''] ?e)))
           = Finite (17993876720759868 + 2)"
    using f by (simp add: c numeral_eq_Suc)
  from v r c x y show ?thesis by blast
qed

text \<open>
  The percentage split, written out: the three failures, and the shares with the last
  entry taking what the running sum of the others leaves.
\<close>

lemma percentage_shares_explicit:
  "calculatePercentageShares e =
     (if sd_Details (Split e) = [] then Inl ErrPercentageNoDetails
      else case find (\<lambda>s. fle (ss_Value s) (f64 0) \<or> flt (f64 100) (ss_Value s))
                  (sd_Details (Split e)) of
             Some s \<Rightarrow> Inl (ErrInvalidPercentage (ss_Value s) (ss_UserID s))
           | None \<Rightarrow>
               if flt (f64 (1 / 100))
                    (fabs (fsub (fsum (map ss_Value (sd_Details (Split e)))) (f64 100)))
               then Inl (ErrPercentageTotal (fsum (map ss_Value (sd_Details (Split e)))))
               else Inr (map (\<lambda>s. \<lparr>ss_UserID = ss_UserID s,
                                     ss_Value = fmul (fdiv (ss_Value s) (f64 100)) (e_Amount e)\<rparr>)
                             (butlast (sd_Details (Split e)))
                         @ [\<lparr>ss_UserID = ss_UserID (last (sd_Details (Split e))),
                             ss_Value = fsub (e_Amount e)
                               (fsum (map (\<lambda>s. fmul (fdiv (ss_Value s) (f64 100)) (e_Amount e))
                                          (butlast (sd_Details (Split e)))))\<rparr>]))"
proof (cases "sd_Details (Split e) = []")
  case True
  then show ?thesis by (simp add: calculatePercentageShares_def)
next
  case False
  let ?ds = "sd_Details (Split e)"
  let ?share = "\<lambda>s. fmul (fdiv (ss_Value s) (f64 100)) (e_Amount e)"
  from False have "?ds = butlast ?ds @ [last ?ds]" by simp
  then have "resolveShares (\<lambda>v. fdiv v (f64 100)) (e_Amount e) ?ds (f64 0) =
      map (\<lambda>s. \<lparr>ss_UserID = ss_UserID s, ss_Value = ?share s\<rparr>) (butlast ?ds)
      @ [\<lparr>ss_UserID = ss_UserID (last ?ds),
          ss_Value = fsub (e_Amount e) (fsum (map ?share (butlast ?ds)))\<rparr>]"
    using resolveShares_snoc[of "\<lambda>v. fdiv v (f64 100)" "e_Amount e" "butlast ?ds" "last ?ds"
                                "f64 0"]
    unfolding fsum_def f64_0 by metis
  then show ?thesis using False
    unfolding calculatePercentageShares_def sumPercentage_eq fsum_def f64_0
    by (simp split: option.splits del: fadd.simps fmul.simps fdiv.simps)
qed

text \<open>Evaluating the percentage examples.\<close>

lemma pct_details:
  "sd_Details (Split (pctExpense vs)) = map (\<lambda>v. \<lparr>ss_UserID = ''U'', ss_Value = v\<rparr>) vs"
  "e_Amount (pctExpense vs) = Finite 200"
  by (simp_all add: pctExpense_def mkExpense_def)

lemma pct_sums:
  "fsum [Finite 50, Finite 49] = Finite 99"
  "fsum [Finite 50, Finite 51] = Finite 101"
  "fsum [Finite 50, Finite 30, Finite 20] = Finite 100"
  by (simp_all add: fsum_def float_eval)

lemma pct_in_range:
  "\<not> fle (Finite 50) (Finite 0)" "\<not> flt (Finite 100) (Finite 50)"
  "\<not> fle (Finite 49) (Finite 0)" "\<not> flt (Finite 100) (Finite 49)"
  "\<not> fle (Finite 51) (Finite 0)" "\<not> flt (Finite 100) (Finite 51)"
  "\<not> fle (Finite 30) (Finite 0)" "\<not> flt (Finite 100) (Finite 30)"
  "\<not> fle (Finite 20) (Finite 0)" "\<not> flt (Finite 100) (Finite 20)"
  by (simp_all add: fle_def)

lemma pct_tolerance:
  "flt (f64 (1 / 100)) (fabs (fsub (Finite 99) (Finite 100)))"
  "flt (f64 (1 / 100)) (fabs (fsub (Finite 101) (Finite 100)))"
  "\<not> flt (f64 (1 / 100)) (fabs (fsub (Finite 100) (Finite 100)))"
  by (simp_all add: float_eval)

lemma pct_shares:
  "fmul (fdiv (Finite 50) (Finite 100)) (Finite 200) = Finite 100"
  "fmul (fdiv (Finite 30) (Finite 100)) (Finite 200) = Finite 60"
  "fsub (Finite 200) (fsum [Finite 100, Finite 60]) = Finite 40"
  by (simp_all add: fsum_def float_eval)

lemma near_values:
  "f64 (4 / 100) = Finite (5764607523034235 / 144115188075855872)"
  "f64 (9997 / 100) = Finite (3517381677720535 / 35184372088832)"
  "f64 (5001 / 100) = Finite (7038281792649953 / 140737488355328)"
  by (simp_all add: float_eval)

lemma nearBelow_sum:
  "fsum [Finite (5764607523034235 / 144115188075855872),
         Finite (3517381677720535 / 35184372088832)]
     = Finite (7037578105208177 / 70368744177664)"
  by (simp add: fsum_def float_eval)

lemma nearBelow_tolerance:
  "flt (f64 (1 / 100)) (fabs (fsub (Finite (7037578105208177 / 70368744177664)) (Finite 100)))"
  by (simp add: float_eval)

lemma nearAbove_sum:
  "fsum [Finite 50, Finite (7038281792649953 / 140737488355328), Finite (1 / 281474976710656)]
     = Finite (439848631575511 / 4398046511104)"
  by (simp add: fsum_def float_eval)

lemma nearAbove_tolerance:
  "\<not> flt (f64 (1 / 100)) (fabs (fsub (Finite (439848631575511 / 4398046511104)) (Finite 100)))"
  by (simp add: float_eval)

lemma nearAbove_shares:
  "fmul (fdiv (Finite (7038281792649953 / 140737488355328)) (Finite 100)) (Finite 200)
     = Finite (7038281792649953 / 70368744177664)"
  "fsub (Finite 200) (fsum [Finite 100, Finite (7038281792649953 / 70368744177664)])
     = Finite (- (43980465111 / 2199023255552))"
  by (simp_all add: fsum_def float_eval)

text \<open>
  Claim C6, as the code has it.  For a percentage split the calculation fails on an empty
  detail list, on the first value that is \<^verbatim>\<open><= 0\<close> or \<^verbatim>\<open>> 100\<close>, and when the
  \<^verbatim>\<open>float64\<close> running sum of the values, minus 100, is in absolute value above the
  \<^verbatim>\<open>float64\<close> constant \<^verbatim>\<open>0.01\<close> (so running sums of 99 and of 101 fail); otherwise
  every entry but the last receives \<^verbatim>\<open>(value / 100.0) * amount\<close> and the last entry
  receives the amount minus the running sum of the shares computed before it.
\<close>

theorem percentage_split:
  "calculatePercentageShares e =
     (if sd_Details (Split e) = [] then Inl ErrPercentageNoDetails
      else case find (\<lambda>s. fle (ss_Value s) (f64 0) \<or> flt (f64 100) (ss_Value s))
                  (sd_Details (Split e)) of
             Some s \<Rightarrow> Inl (ErrInvalidPercentage (ss_Value s) (ss_UserID s))
           | None \<Rightarrow>
               if flt (f64 (1 / 100))
                    (fabs (fsub (fsum (map ss_Value (sd_Details (Split e)))) (f64 100)))
               then Inl (ErrPercentageTotal (fsum (map ss_Value (sd_Details (Split e)))))
               else Inr (map (\<lambda>s. \<lparr>ss_UserID = ss_UserID s,
                                     ss_Value = fmul (fdiv (ss_Value s) (f64 100)) (e_Amount e)\<rparr>)
                             (butlast (sd_Details (Split e)))
                         @ [\<lparr>ss_UserID = ss_UserID (last (sd_Details (Split e))),
                             ss_Value = fsub (e_Amount e)
                               (fsum (map (\<lambda>s. fmul (fdiv (ss_Value s) (f64 100)) (e_Amount e))
                                          (butlast (sd_Details (Split e)))))\<rparr>]))
   \<and> (isl (calculatePercentageShares e) \<longleftrightarrow>
        sd_Details (Split e) = []
        \<or> list_ex (\<lambda>s. fle (ss_Value s) (f64 0) \<or> flt (f64 100) (ss_Value s))
             (sd_Details (Split e))
        \<or> flt (f64 (1 / 100))
             (fabs (fsub (fsum (map ss_Value (sd_Details (Split e)))) (f64 100))))
   \<and> (fsum (map ss_Value (sd_Details (Split e))) = Finite 99
        \<or> fsum (map ss_Value (sd_Details (Split e))) = Finite 101
       \<longrightarrow> isl (calculatePercentageShares e))"
proof -
  let ?ds = "sd_Details (Split e)"
  let ?bad = "\<lambda>s. fle (ss_Value s) (f64 0) \<or> flt (f64 100) (ss_Value s)"
  note main = percentage_shares_explicit[of e]
  have fails: "isl (calculatePercentageShares e) \<longleftrightarrow>
        ?ds = [] \<or> list_ex ?bad ?ds
        \<or> flt (f64 (1 / 100)) (fabs (fsub (fsum (map ss_Value ?ds)) (f64 100)))"
    unfolding main using find_None_list_ex[of ?bad ?ds]
    by (auto split: option.splits)
  have "fsum (map ss_Value ?ds) = Finite 99 \<or> fsum (map ss_Value ?ds) = Finite 101
        \<longrightarrow> isl (calculatePercentageShares e)"
    unfolding fails using pct_tolerance by auto
  with main fails show ?thesis by blast
qed

theorem percentage_split_witness:
  "(fsum (map ss_Value (sd_Details (Split (pctExpense [Finite 50, Finite 49])))) = Finite 99
    \<or> fsum (map ss_Value (sd_Details (Split (pctExpense [Finite 50, Finite 49])))) = Finite 101)
   \<and> calculatePercentageShares (pctExpense [Finite 50, Finite 49])
       = Inl (ErrPercentageTotal (Finite 99))
   \<and> (fsum (map ss_Value (sd_Details (Split (pctExpense [Finite 50, Finite 51])))) = Finite 99
    \<or> fsum (map ss_Value (sd_Details (Split (pctExpense [Finite 50, Finite 51])))) = Finite 101)
   \<and> calculatePercentageShares (pctExpense [Finite 50, Finite 51])
       = Inl (ErrPercentageTotal (Finite 101))
   \<and> calculatePercentageShares (pctExpense [Finite 50, Finite 30, Finite 20]) =
       Inr [\<lparr>ss_UserID = ''U'', ss_Value = Finite 100\<rparr>,
            \<lparr>ss_UserID = ''U'', ss_Value = Finite 60\<rparr>,
            \<lparr>ss_UserID = ''U'', ss_Value = Finite 40\<rparr>]"
proof -
  note ev = pct_details pct_sums pct_in_range pct_tolerance pct_shares
  have a: "calculatePercentageShares (pctExpense [Finite 50, Finite 49])
             = Inl (ErrPercentageTotal (Finite 99))"
    using percentage_split[of "pctExpense [Finite 50, Finite 49]"]
    by (simp add: ev del: fadd.simps fmul.simps fdiv.simps)
  have b: "calculatePercentageShares (pctExpense [Finite 50, Finite 51])
             = Inl (ErrPercentageTotal (Finite 101))"
    using percentage_split[of "pctExpense [Finite 50, Finite 51]"]
    by (simp add: ev del: fadd.simps fmul.simps fdiv.simps)
  have c: "calculatePercentageShares (pctExpense [Finite 50, Finite 30, Finite 20]) =
       Inr [\<lparr>ss_UserID = ''U'', ss_Value = Finite 100\<rparr>,
            \<lparr>ss_UserID = ''U'', ss_Value = Finite 60\<rparr>,
            \<lparr>ss_UserID = ''U'', ss_Value = Finite 40\<rparr>]"
    using percentage_split[of "pctExpense [Finite 50, Finite 30, Finite 20]"]
    by (simp add: ev del: fadd.simps fmul.simps fdiv.simps)
  from a b c show ?thesis by (simp add: pct_details pct_sums)
qed

text \<open>
  Claim C6 as stated, refuted at the tolerance.  The percentages 0.04 and 99.97 lie in
  (0, 100] and sum to 100 within 0.01, yet the calculation fails: their running sum is
  100.01, and 100.01 - 100 is 0.010000000000005116 in \<^verbatim>\<open>float64\<close>.  The percentages
  50, 50.01 and 3.552713678800501e-15 lie in (0, 100] and do not sum to 100 within 0.01,
  yet the calculation returns shares (the last of them negative): their running sum is
  100.00999999999999.
\<close>

theorem percentage_tolerance_counterexample:
  "percentagesValid (sd_Details (Split (pctExpense nearBelow)))
   \<and> calculatePercentageShares (pctExpense nearBelow)
       = Inl (ErrPercentageTotal (Finite (7037578105208177 / 70368744177664)))
   \<and> list_all (\<lambda>s. flt (f64 0) (ss_Value s) \<and> fle (ss_Value s) (f64 100))
        (sd_Details (Split (pctExpense nearAbove)))
   \<and> \<not> percentagesValid (sd_Details (Split (pctExpense nearAbove)))
   \<and> calculatePercentageShares (pctExpense nearAbove)
       = Inr [\<lparr>ss_UserID = ''U'', ss_Value = Finite 100\<rparr>,
              \<lparr>ss_UserID = ''U'', ss_Value = Finite (7038281792649953 / 70368744177664)\<rparr>,
              \<lparr>ss_UserID = ''U'', ss_Value = Finite (- (43980465111 / 2199023255552))\<rparr>]"
proof -
  have below: "nearBelow = [Finite (5764607523034235 / 144115188075855872),
                            Finite (3517381677720535 / 35184372088832)]"
    by (simp only: nearBelow_def near_values)
  have above: "nearAbove = [Finite 50, Finite (7038281792649953 / 140737488355328),
                            Finite (1 / 281474976710656)]"
    by (simp only: nearAbove_def near_values)
  have v1: "percentagesValid (sd_Details (Split (pctExpense nearBelow)))"
    unfolding percentagesValid_def pct_details below
    by (simp add: fle_def)
  have r2: "list_all (\<lambda>s. flt (f64 0) (ss_Value s) \<and> fle (ss_Value s) (f64 100))
              (sd_Details (Split (pctExpense nearAbove)))"
    unfolding pct_details above by (simp add: fle_def)
  have v2: "\<not> percentagesValid (sd_Details (Split (pctExpense nearAbove)))"
    unfolding percentagesValid_def pct_details above by simp
  have c1: "calculatePercentageShares (pctExpense nearBelow)
       = Inl (ErrPercentageTotal (Finite (7037578105208177 / 70368744177664)))"
    unfolding percentage_shares_explicit pct_details below
    by (simp add: nearBelow_sum nearBelow_tolerance fle_def)
  have c2: "calculatePercentageShares (pctExpense nearAbove)
       = Inr [\<lparr>ss_UserID = ''U'', ss_Value = Finite 100\<rparr>,
              \<lparr>ss_UserID = ''U'', ss_Value = Finite (7038281792649953 / 70368744177664)\<rparr>,
              \<lparr>ss_UserID = ''U'', ss_Value = Finite (- (43980465111 / 2199023255552))\<rparr>]"
    unfolding percentage_shares_explicit pct_details above
    by (simp add: nearAbove_sum nearAbove_tolerance nearAbove_shares pct_shares fle_def
             del: fadd.simps fmul.simps fdiv.simps)
  from v1 c1 r2 v2 c2 show ?thesis by blast
qed

section \<open>Expense service: the properties\<close>

text \<open>Evaluating the validation examples.\<close>

lemma paid_sums:
  "fadd (Finite 0) (Finite 90) = Finite 90"
  "fadd (Finite 0) (Finite 80) = Finite 80"
  "fadd (Finite 0) (Finite 50) = Finite 50"
  "fadd (Finite 0) (Finite 100) = Finite 100"
  "fadd (Finite 50) (Finite 49) = Finite 99"
  by (simp_all add: float_eval)

lemma paid_tolerance:
  "\<not> flt (f64 (1 / 100)) (fabs (fsub (Finite 90) (Finite 90)))"
  "flt (f64 (1 / 100)) (fabs (fsub (Finite 80) (Finite 90)))"
  by (simp_all add: float_eval)

lemma cent_values:
  "f64 (1 / 50) = Finite (5764607523034235 / 288230376151711744)"
  "fadd (Finite 0) (Finite (5764607523034235 / 288230376151711744))
     = Finite (5764607523034235 / 288230376151711744)"
  "fsub (Finite (5764607523034235 / 288230376151711744))
        (Finite (5764607523034235 / 576460752303423488))
     = Finite (5764607523034235 / 576460752303423488)"
  by (simp_all add: float_eval)

text \<open>An amount of 0.01 paid as 0.02: the difference is the \<^verbatim>\<open>float64\<close> 0.01, not above it.\<close>

lemma cent_accepted:
  "floatPreconditions (mkExpense (f64 (1 / 100)) (payerA (f64 (1 / 50))) SplitEqual [])"
  unfolding floatPreconditions_def
  by (simp add: mkExpense_def payerA_def f64_hundredth cent_values fsum_def fle_def
           del: fadd.simps)

lemma paidByABC_amounts:
  "map pb_Amount (paidByABC [a, b]) = [a, b]"
  "map pb_Amount (paidByABC [a, b, c]) = [a, b, c]"
  by (simp_all add: paidByABC_def)

text \<open>
  Claim C7, as the code has it.  Structural validation succeeds exactly on the expenses
  that pass the tests the code makes: the amount is not \<^verbatim>\<open><= 0\<close>, there is a payer,
  no payer amount is \<^verbatim>\<open><= 0\<close>, the \<^verbatim>\<open>float64\<close> running sum of the payer amounts
  minus the amount is in absolute value not above the \<^verbatim>\<open>float64\<close> constant
  \<^verbatim>\<open>0.01\<close>, and the split type is one of the four known types.  On any other expense
  \<^verbatim>\<open>CreateExpense\<close> returns the validation error and the store it returns is the
  store it was given: nothing was written.
\<close>

theorem validation_before_write:
  "(if floatPreconditions e then validateExpense e = None
    else \<exists>err. validateExpense e = Some err \<and> CreateExpense env db e = (Inl err, db))"
proof (cases "floatPreconditions e")
  case True
  then show ?thesis by (simp add: validateExpense_iff)
next
  case False
  then obtain err where "validateExpense e = Some err"
    using validateExpense_iff[of e] by (cases "validateExpense e") auto
  then show ?thesis using False by (simp add: CreateExpense_def)
qed

theorem validation_before_write_witness:
  "floatPreconditions scenario
   \<and> validateExpense scenario = None
   \<and> floatPreconditions (mkExpense (f64 (1 / 100)) (payerA (f64 (1 / 50))) SplitEqual [])
   \<and> validateExpense (mkExpense (f64 (1 / 100)) (payerA (f64 (1 / 50))) SplitEqual []) = None
   \<and> \<not> floatPreconditions (mkExpense (Finite 0) (payerA (Finite 90)) SplitEqual [])
   \<and> CreateExpense env0 dbUsers (mkExpense (Finite 0) (payerA (Finite 90)) SplitEqual [])
        = (Inl ErrAmountNotPositive, dbUsers)
   \<and> \<not> floatPreconditions (mkExpense (Finite 90) (payerA (Finite 80)) SplitEqual [])
   \<and> CreateExpense env0 dbUsers (mkExpense (Finite 90) (payerA (Finite 80)) SplitEqual [])
        = (Inl (ErrTotalPaidMismatch (Finite 80) (Finite 90)), dbUsers)
   \<and> \<not> floatPreconditions (mkExpense (Finite 90) (payerA (Finite 90)) ''half'' [])
   \<and> CreateExpense env0 dbUsers (mkExpense (Finite 90) (payerA (Finite 90)) ''half'' [])
        = (Inl (ErrInvalidSplitType ''half''), dbUsers)"
proof -
  note types = SplitEqual_def SplitExact_def SplitPercentage_def SplitShares_def
  note ev = fle_def fsum_def paid_sums paid_tolerance
  have s: "floatPreconditions scenario"
    by (simp add: floatPreconditions_def expense_examples ev del: fadd.simps)
  have n1: "\<not> floatPreconditions (mkExpense (Finite 0) (payerA (Finite 90)) SplitEqual [])"
    by (simp add: floatPreconditions_def expense_examples ev del: fadd.simps)
  have n2: "\<not> floatPreconditions (mkExpense (Finite 90) (payerA (Finite 80)) SplitEqual [])"
    by (simp add: floatPreconditions_def expense_examples ev del: fadd.simps)
  have n3: "\<not> floatPreconditions (mkExpense (Finite 90) (payerA (Finite 90)) ''half'' [])"
    by (simp add: floatPreconditions_def expense_examples types ev del: fadd.simps)
  have e1: "validateExpense (mkExpense (Finite 0) (payerA (Finite 90)) SplitEqual [])
              = Some ErrAmountNotPositive"
    by (simp add: validateExpense_def expense_examples ev del: fadd.simps)
  have e2: "validateExpense (mkExpense (Finite 90) (payerA (Finite 80)) SplitEqual [])
              = Some (ErrTotalPaidMismatch (Finite 80) (Finite 90))"
    by (simp add: validateExpense_def expense_examples ev del: fadd.simps)
  have e3: "validateExpense (mkExpense (Finite 90) (payerA (Finite 90)) ''half'' [])
              = Some (ErrInvalidSplitType ''half'')"
    by (simp add: validateExpense_def expense_examples types ev del: fadd.simps)
  have c: "validateExpense (mkExpense (f64 (1 / 100)) (payerA (f64 (1 / 50))) SplitEqual [])
             = None"
    using validation_before_write[of "mkExpense (f64 (1 / 100)) (payerA (f64 (1 / 50)))
                                         SplitEqual []" env0 dbUsers]
    by (simp only: cent_accepted if_True)
  show ?thesis
    using s n1 n2 n3 c cent_accepted
      validation_before_write[of scenario env0 dbUsers]
      validation_before_write[of "mkExpense (Finite 0) (payerA (Finite 90)) SplitEqual []"
                                 env0 dbUsers]
      validation_before_write[of "mkExpense (Finite 90) (payerA (Finite 80)) SplitEqual []"
                                 env0 dbUsers]
      validation_before_write[of "mkExpense (Finite 90) (payerA (Finite 90)) ''half'' []"
                                 env0 dbUsers]
    by (simp add: e1 e2 e3)
qed

text \<open>
  Claim C7 as stated, refuted at the tolerance and at NaN.  Payers of 0.04 and 99.97 for
  an amount of 100 satisfy every structural precondition (their sum is within 0.01 of the
  amount), yet validation fails: the running sum is 100.01, and 100.01 - 100 is
  0.010000000000005116 in \<^verbatim>\<open>float64\<close>.  Payers of 50, 50.01 and
  3.552713678800501e-15 for an amount of 100 miss the amount by more than 0.01, yet
  validation succeeds: the running sum is 100.00999999999999.  An amount that is NaN is
  not greater than zero, yet it is not \<^verbatim>\<open><= 0\<close> either, and validation succeeds.
\<close>

theorem validation_tolerance_counterexample:
  "structuralPreconditions (mkExpense (Finite 100) (paidByABC nearBelow) SplitEqual [])
   \<and> validateExpense (mkExpense (Finite 100) (paidByABC nearBelow) SplitEqual [])
       = Some (ErrTotalPaidMismatch (Finite (7037578105208177 / 70368744177664)) (Finite 100))
   \<and> \<not> structuralPreconditions (mkExpense (Finite 100) (paidByABC nearAbove) SplitEqual [])
   \<and> validateExpense (mkExpense (Finite 100) (paidByABC nearAbove) SplitEqual []) = None
   \<and> \<not> structuralPreconditions (mkExpense NaN (payerA NaN) SplitEqual [])
   \<and> validateExpense (mkExpense NaN (payerA NaN) SplitEqual []) = None"
proof -
  have below: "nearBelow = [Finite (5764607523034235 / 144115188075855872),
                            Finite (3517381677720535 / 35184372088832)]"
    by (simp only: nearBelow_def near_values)
  have above: "nearAbove = [Finite 50, Finite (7038281792649953 / 140737488355328),
                            Finite (1 / 281474976710656)]"
    by (simp only: nearAbove_def near_values)
  have fields: "\<And>a p t d. e_Amount (mkExpense a p t d) = a"
    "\<And>a p t d. e_PaidBy (mkExpense a p t d) = p"
    "\<And>a p t d. sd_Type (Split (mkExpense a p t d)) = t"
    by (simp_all add: mkExpense_def)
  have s1: "structuralPreconditions (mkExpense (Finite 100) (paidByABC nearBelow) SplitEqual [])"
    unfolding structuralPreconditions_def fields below
    by (simp add: paidByABC_def)
  have s2: "\<not> structuralPreconditions (mkExpense (Finite 100) (paidByABC nearAbove) SplitEqual [])"
    unfolding structuralPreconditions_def fields above
    by (simp add: paidByABC_def)
  have s3: "\<not> structuralPreconditions (mkExpense NaN (payerA NaN) SplitEqual [])"
    unfolding structuralPreconditions_def fields by simp
  have v1: "validateExpense (mkExpense (Finite 100) (paidByABC nearBelow) SplitEqual [])
       = Some (ErrTotalPaidMismatch (Finite (7037578105208177 / 70368744177664)) (Finite 100))"
    unfolding validateExpense_def sumPaid_eq fields below
    using nearBelow_sum nearBelow_tolerance
    by (simp add: paidByABC_def fle_def fsum_def del: fadd.simps)
  have "floatPreconditions (mkExpense (Finite 100) (paidByABC nearAbove) SplitEqual [])"
    unfolding floatPreconditions_def fields above paidByABC_amounts
    by (simp add: nearAbove_sum nearAbove_tolerance paidByABC_def fle_def)
  then have v2: "validateExpense (mkExpense (Finite 100) (paidByABC nearAbove) SplitEqual [])
                   = None"
    by (simp add: validateExpense_iff)
  have "floatPreconditions (mkExpense NaN (payerA NaN) SplitEqual [])"
    unfolding floatPreconditions_def fields
    by (simp add: payerA_def fsum_def fle_def fsub_def f64_hundredth)
  then have v3: "validateExpense (mkExpense NaN (payerA NaN) SplitEqual []) = None"
    by (simp add: validateExpense_iff)
  from s1 v1 s2 v2 s3 v3 show ?thesis by blast
qed

text \<open>
  Claim C10.  \<^verbatim>\<open>GetExpense\<close> looks up the stored, not deleted expense with the given
  id.  It returns that expense when the requesting user is its creator, one of its payers
  or one of its split participants, and the access error (which carries no expense data)
  for every other user; the store is returned as it was in every case.
\<close>

theorem get_expense_access:
  "GetExpense db expenseID userID =
     (case find (\<lambda>e. ExpenseID e = expenseID \<and> \<not> IsDeleted e) (expenses db) of
        None \<Rightarrow> (Inl ErrExpenseNotFound, db)
      | Some expense \<Rightarrow>
          if userID = CreatorID expense
             \<or> userID \<in> pb_UserID ` set (e_PaidBy expense)
             \<or> userID \<in> ss_UserID ` set (sd_Details (Split expense))
          then (Inr expense, db)
          else (Inl ErrNoAccess, db))
   \<and> snd (GetExpense db expenseID userID) = db"
  by (auto simp: GetExpense_def expense_GetByID_def Let_def list_ex_iff split: option.splits)

theorem get_expense_access_witness:
  "GetExpense dbExpense ''e1'' ''A'' = (Inr storedScenario, dbExpense)
   \<and> GetExpense dbExpense ''e1'' ''C'' = (Inr storedScenario, dbExpense)
   \<and> GetExpense dbExpense ''e1'' ''Z'' = (Inl ErrNoAccess, dbExpense)
   \<and> GetExpense dbExpense ''e2'' ''A'' = (Inl ErrExpenseNotFound, dbExpense)"
proof -
  have f: "find (\<lambda>e. ExpenseID e = ''e1'' \<and> \<not> IsDeleted e) (expenses dbExpense)
             = Some storedScenario"
    by (simp add: store_examples expense_examples)
  have g: "find (\<lambda>e. ExpenseID e = ''e2'' \<and> \<not> IsDeleted e) (expenses dbExpense) = None"
    by (simp add: store_examples expense_examples)
  have c: "CreatorID storedScenario = ''A''"
    "pb_UserID ` set (e_PaidBy storedScenario) = {''A''}"
    "ss_UserID ` set (sd_Details (Split storedScenario)) = {''A'', ''B'', ''C''}"
    by (simp_all add: storedScenario_def expense_examples)
  show ?thesis
    using get_expense_access[of dbExpense "''e1''" "''A''"]
      get_expense_access[of dbExpense "''e1''" "''C''"]
      get_expense_access[of dbExpense "''e1''" "''Z''"]
      get_expense_access[of dbExpense "''e2''" "''A''"]
    by (simp add: f g c)
qed

section \<open>The document store: finding and updating the first match\<close>

lemma UpdateOne_None: "(UpdateOne P f xs = None) = (find P xs = None)"
  by (induction xs) (auto split: option.splits)

lemma UpdateOne_index:
  "find P xs = Some x \<Longrightarrow> \<exists>i<length xs. xs ! i = x \<and> UpdateOne P f xs = Some (xs[i := f x])"
proof (induction xs)
  case Nil
  then show ?case by simp
next
  case (Cons a xs)
  show ?case
  proof (cases "P a")
    case True
    then have "a = x" using Cons.prems by simp
    then have "(a # xs) ! 0 = x \<and> UpdateOne P f (a # xs) = Some ((a # xs)[0 := f x])"
      using True by simp
    then show ?thesis by blast
  next
    case False
    then have "find P xs = Some x" using Cons.prems by simp
    then obtain i where "i < length xs" "xs ! i = x" "UpdateOne P f xs = Some (xs[i := f x])"
      using Cons.IH by blast
    then have "Suc i < length (a # xs) \<and> (a # xs) ! Suc i = x
               \<and> UpdateOne P f (a # xs) = Some ((a # xs)[Suc i := f x])"
      using False by simp
    then show ?thesis by blast
  qed
qed

text \<open>
  An update through a filter \<open>P'\<close> that refines the lookup filter \<open>P\<close>: when the first
  \<open>P\<close>-document also satisfies \<open>P'\<close>, it is the document rewritten.
\<close>

lemma UpdateOne_find_refined:
  "find P xs = Some x \<Longrightarrow> P' x \<Longrightarrow> (\<And>y. P' y \<Longrightarrow> P y) \<Longrightarrow> P (f x) \<Longrightarrow>
   \<exists>ys. UpdateOne P' f xs = Some ys \<and> find P ys = Some (f x)"
proof (induction xs)
  case Nil
  then show ?case by simp
next
  case (Cons a xs)
  show ?case
  proof (cases "P a")
    case True
    then show ?thesis using Cons.prems by simp
  next
    case False
    then have "\<not> P' a" using Cons.prems(3) by blast
    moreover have "find P xs = Some x" using False Cons.prems(1) by simp
    ultimately show ?thesis using Cons False by auto
  qed
qed

lemma UpdateOne_find_same:
  "find P xs = Some x \<Longrightarrow> P (f x) \<Longrightarrow>
   \<exists>ys. UpdateOne P f xs = Some ys \<and> find P ys = Some (f x)"
  using UpdateOne_find_refined[of P xs x P f] by (auto dest: find_Some_iff[THEN iffD1])

lemma UpdateOne_find_other:
  "UpdateOne P f xs = Some ys \<Longrightarrow> (\<And>y. P y \<Longrightarrow> \<not> Q y) \<Longrightarrow> (\<And>y. P y \<Longrightarrow> \<not> Q (f y)) \<Longrightarrow>
   find Q ys = find Q xs"
proof (induction xs arbitrary: ys)
  case Nil
  then show ?case by simp
next
  case (Cons a xs)
  show ?case
  proof (cases "P a")
    case True
    then show ?thesis using Cons.prems by auto
  next
    case False
    then obtain zs where "UpdateOne P f xs = Some zs" "ys = a # zs"
      using Cons.prems(1) by (auto split: option.splits)
    then show ?thesis using Cons.IH[of zs] Cons.prems(2,3) by simp
  qed
qed

lemma UpdateOne_keys:
  "UpdateOne P f xs = Some ys \<Longrightarrow> (\<And>x. k (f x) = k x) \<Longrightarrow> map k ys = map k xs"
  by (induction xs arbitrary: ys) (auto split: if_splits option.splits)

lemma find_append:
  "find P (xs @ ys) = (case find P xs of None \<Rightarrow> find P ys | Some x \<Rightarrow> Some x)"
  by (induction xs) auto

lemma unique_find_only:
  assumes "distinct (map k xs)" "find (\<lambda>x. k x = key) xs = Some x" "y \<in> set xs" "k y = key"
  shows "y = x"
proof -
  have "x \<in> set xs" "k x = key"
    using assms(2) by (auto simp: find_Some_iff)
  then show ?thesis using assms(1,3,4) by (auto simp: distinct_map dest: inj_onD)
qed

section \<open>Blind increments\<close>

text \<open>
  \<^verbatim>\<open>UpdateBalance\<close> adds its amount to the balance of exactly the addressed
  (user, scope) pair, whether the row existed or not.
\<close>

lemma UpdateBalance_amount:
  "balanceAmount (UpdateBalance now db userID groupID amount) u g =
     balanceAmount db u g + (if u = userID \<and> g = groupID then amount else 0)"
proof (cases "find (balanceFilter userID groupID) (balances db)")
  case None
  then have upd: "UpdateBalance now db userID groupID amount =
      db\<lparr>balances := balances db @
                [\<lparr>b_UserID = userID, b_GroupID = groupID, b_Balance = amount,
                  b_Currency = ''USD'', b_UpdatedAt = now, b_Version = 1\<rparr>]\<rparr>"
    using UpdateOne_None[of "balanceFilter userID groupID" _ "balances db", THEN iffD2, OF None]
    by (simp add: UpdateBalance_def)
  show ?thesis
  proof (cases "u = userID \<and> g = groupID")
    case True
    then show ?thesis using None
      by (simp add: upd balanceAmount_def GetByUserAndGroup_def find_append balanceFilter_def)
  next
    case False
    then show ?thesis
      by (auto simp: upd balanceAmount_def GetByUserAndGroup_def find_append balanceFilter_def
               split: option.splits)
  qed
next
  case (Some b)
  let ?f = "\<lambda>b. b\<lparr>b_Balance := b_Balance b + amount, b_Version := b_Version b + 1,
                     b_UpdatedAt := now\<rparr>"
  have "balanceFilter userID groupID (?f b)"
    using Some by (auto simp: balanceFilter_def dest: find_Some_iff[THEN iffD1])
  then obtain ys where ys: "UpdateOne (balanceFilter userID groupID) ?f (balances db) = Some ys"
    and f: "find (balanceFilter userID groupID) ys = Some (?f b)"
    using UpdateOne_find_same[OF Some, of ?f] by blast
  have upd: "UpdateBalance now db userID groupID amount = db\<lparr>balances := ys\<rparr>"
    by (simp add: UpdateBalance_def ys)
  show ?thesis
  proof (cases "u = userID \<and> g = groupID")
    case True
    then show ?thesis using Some f
      by (simp add: upd balanceAmount_def GetByUserAndGroup_def)
  next
    case False
    then have "find (balanceFilter u g) ys = find (balanceFilter u g) (balances db)"
      using UpdateOne_find_other[OF ys, of "balanceFilter u g"]
      by (auto simp: balanceFilter_def)
    then show ?thesis using False
      by (auto simp: upd balanceAmount_def GetByUserAndGroup_def)
  qed
qed

text \<open>The upsert keeps one row per (user, scope).\<close>

lemma UpdateBalance_unique:
  assumes "uniqueBalances db"
  shows "uniqueBalances (UpdateBalance now db userID groupID amount)"
proof (cases "UpdateOne (balanceFilter userID groupID)
               (\<lambda>b. b\<lparr>b_Balance := b_Balance b + amount, b_Version := b_Version b + 1,
                       b_UpdatedAt := now\<rparr>) (balances db)")
  case None
  then have "find (balanceFilter userID groupID) (balances db) = None"
    by (simp add: UpdateOne_None)
  then have "(userID, groupID) \<notin> set (map (\<lambda>b. (b_UserID b, b_GroupID b)) (balances db))"
    by (auto simp: find_None_iff balanceFilter_def)
  then show ?thesis using assms None
    by (simp add: UpdateBalance_def uniqueBalances_def)
next
  case (Some ys)
  then have "map (\<lambda>b. (b_UserID b, b_GroupID b)) ys
               = map (\<lambda>b. (b_UserID b, b_GroupID b)) (balances db)"
    using UpdateOne_keys[OF Some, of "\<lambda>b. (b_UserID b, b_GroupID b)"] by simp
  then show ?thesis using assms Some
    by (simp add: UpdateBalance_def uniqueBalances_def)
qed

lemma UpdateBalance_frame:
  "settlements (UpdateBalance now db u g a) = settlements db"
  "history (UpdateBalance now db u g a) = history db"
  "expenses (UpdateBalance now db u g a) = expenses db"
  "users (UpdateBalance now db u g a) = users db"
  "groups (UpdateBalance now db u g a) = groups db"
  by (simp_all add: UpdateBalance_def split: option.splits)

lemma CreateBalanceHistory_amount:
  "balanceAmount (CreateBalanceHistory now db h) u g = balanceAmount db u g"
  by (simp add: CreateBalanceHistory_def balanceAmount_def GetByUserAndGroup_def)

lemma balanceAmount_cong:
  "balances db' = balances db \<Longrightarrow> balanceAmount db' u g = balanceAmount db u g"
  by (simp add: balanceAmount_def GetByUserAndGroup_def)

section \<open>Settlements: lookup and completion\<close>

lemma settlement_GetByID_find:
  "(settlement_GetByID db sid = Inr s) = (find (\<lambda>s. SettlementID s = sid) (settlements db) = Some s)"
  by (simp add: settlement_GetByID_def split: option.splits)

lemma GetByID_SettlementID: "settlement_GetByID db sid = Inr s \<Longrightarrow> SettlementID s = sid"
  by (auto simp: settlement_GetByID_find dest: find_Some_iff[THEN iffD1])

lemma settlement_GetByID_cong:
  "settlements db' = settlements db \<Longrightarrow> settlement_GetByID db' sid = settlement_GetByID db sid"
  by (simp add: settlement_GetByID_def)

lemma MarkCompleted_ok:
  assumes "settlement_GetByID db sid = Inr s"
  shows "\<exists>db1. MarkCompleted now db sid txn = Inr db1
           \<and> settlement_GetByID db1 sid =
               Inr (s\<lparr>s_Status := SettlementCompleted, s_CompletedAt := Some now,
                      s_UpdatedAt := now, s_TransactionID := txn\<rparr>)
           \<and> balances db1 = balances db \<and> history db1 = history db"
proof -
  let ?P = "\<lambda>s. SettlementID s = sid"
  let ?f = "\<lambda>s. s\<lparr>s_Status := SettlementCompleted, s_CompletedAt := Some now,
                     s_UpdatedAt := now, s_TransactionID := txn\<rparr>"
  have f: "find ?P (settlements db) = Some s"
    using assms by (simp add: settlement_GetByID_find)
  have "?P (?f s)" using GetByID_SettlementID[OF assms] by simp
  then obtain ys where "UpdateOne ?P ?f (settlements db) = Some ys" "find ?P ys = Some (?f s)"
    using UpdateOne_find_same[OF f, of ?f] by blast
  then show ?thesis
    by (simp add: MarkCompleted_def settlement_GetByID_def)
qed

text \<open>
  What a completion by the from-user does to a store holding the settlement as pending.
\<close>

lemma CompleteSettlement_effect:
  assumes "settlement_GetByID db sid = Inr s"
    and "s_Status s = SettlementPending"
  shows "\<exists>db'. CompleteSettlement now db sid (s_FromUserID s) txn = (None, db')
      \<and> settlement_GetByID db' sid =
           Inr (s\<lparr>s_Status := SettlementCompleted, s_CompletedAt := Some now,
                  s_UpdatedAt := now, s_TransactionID := txn\<rparr>)
      \<and> (\<forall>u g. balanceAmount db' u g =
             balanceAmount db u g
             + (if u = s_FromUserID s \<and> g = s_GroupID s then s_Amount s else 0)
             - (if u = s_ToUserID s \<and> g = s_GroupID s then s_Amount s else 0))
      \<and> history db' = history db @
           [(fromHistory now sid s)\<lparr>h_CreatedAt := now\<rparr>,
            (toHistory now sid s)\<lparr>h_CreatedAt := now\<rparr>]"
proof -
  obtain db1 where m: "MarkCompleted now db sid txn = Inr db1"
    and g1: "settlement_GetByID db1 sid =
               Inr (s\<lparr>s_Status := SettlementCompleted, s_CompletedAt := Some now,
                      s_UpdatedAt := now, s_TransactionID := txn\<rparr>)"
    and b1: "balances db1 = balances db" and h1: "history db1 = history db"
    using MarkCompleted_ok[OF assms(1)] by blast
  define db2 where "db2 = UpdateBalance now db1 (s_FromUserID s) (s_GroupID s) (s_Amount s)"
  define db3 where "db3 = UpdateBalance now db2 (s_ToUserID s) (s_GroupID s) (- s_Amount s)"
  define db4 where "db4 = CreateBalanceHistory now db3 (fromHistory now sid s)"
  define db5 where "db5 = CreateBalanceHistory now db4 (toHistory now sid s)"
  have res: "CompleteSettlement now db sid (s_FromUserID s) txn = (None, db5)"
    using assms m
    by (simp add: CompleteSettlement_def WithTransaction_def Let_def db5_def db4_def db3_def db2_def)
  have sett: "settlements db5 = settlements db1"
    by (simp add: db5_def db4_def db3_def db2_def CreateBalanceHistory_def UpdateBalance_frame)
  have hist: "history db5 = history db @ [(fromHistory now sid s)\<lparr>h_CreatedAt := now\<rparr>,
                                           (toHistory now sid s)\<lparr>h_CreatedAt := now\<rparr>]"
    by (simp add: db5_def db4_def db3_def db2_def CreateBalanceHistory_def UpdateBalance_frame h1)
  have bal: "balanceAmount db5 u g =
             balanceAmount db u g
             + (if u = s_FromUserID s \<and> g = s_GroupID s then s_Amount s else 0)
             - (if u = s_ToUserID s \<and> g = s_GroupID s then s_Amount s else 0)" for u g
    using balanceAmount_cong[OF b1, of u g]
    by (simp add: db5_def db4_def db3_def db2_def CreateBalanceHistory_amount UpdateBalance_amount)
  have "settlement_GetByID db5 sid =
           Inr (s\<lparr>s_Status := SettlementCompleted, s_CompletedAt := Some now,
                  s_UpdatedAt := now, s_TransactionID := txn\<rparr>)"
    using settlement_GetByID_cong[OF sett] g1 by simp
  then show ?thesis using res bal hist by blast
qed

text \<open>Settlements enter the store pending, between two different users, for a positive amount.\<close>

lemma CreateSettlement_pending:
  assumes "CreateSettlement now uuid db req = (Inr s, db')"
  shows "s_Status s = SettlementPending \<and> s_FromUserID s \<noteq> s_ToUserID s \<and> s_Amount s > 0
       \<and> settlements db' = settlements db @ [s] \<and> balances db' = balances db
       \<and> history db' = history db"
  using assms
  by (auto simp: CreateSettlement_def settlement_Create_def Let_def
           split: if_splits list.splits)

section \<open>Settlement service: the properties\<close>

text \<open>
  Claim C4.  Completing a pending settlement (by its from-user, the two parties being
  different users) succeeds; it stores the settlement as completed with the completion
  time and the transaction reference, raises the from-user's balance in the settlement's
  scope by the amount and lowers the to-user's by the amount (no other balance changes),
  and appends exactly two history rows that reference the settlement, with deltas
  \<open>+amount\<close> for the from-user and \<open>-amount\<close> for the to-user.
\<close>

theorem complete_pending_settlement:
  assumes "settlement_GetByID db sid = Inr s"
    and "s_Status s = SettlementPending"
    and "s_FromUserID s \<noteq> s_ToUserID s"
  shows "\<exists>db'. CompleteSettlement now db sid (s_FromUserID s) txn = (None, db')
      \<and> settlement_GetByID db' sid =
           Inr (s\<lparr>s_Status := SettlementCompleted, s_CompletedAt := Some now,
                  s_UpdatedAt := now, s_TransactionID := txn\<rparr>)
      \<and> balanceAmount db' (s_FromUserID s) (s_GroupID s)
           = balanceAmount db (s_FromUserID s) (s_GroupID s) + s_Amount s
      \<and> balanceAmount db' (s_ToUserID s) (s_GroupID s)
           = balanceAmount db (s_ToUserID s) (s_GroupID s) - s_Amount s
      \<and> (\<forall>u g. balanceAmount db' u g =
             balanceAmount db u g
             + (if u = s_FromUserID s \<and> g = s_GroupID s then s_Amount s else 0)
             - (if u = s_ToUserID s \<and> g = s_GroupID s then s_Amount s else 0))
      \<and> history db' = history db @
           [\<lparr>h_UserID = s_FromUserID s, h_GroupID = s_GroupID s, h_Amount = s_Amount s,
             h_Currency = s_Currency s, h_Type = BalanceChangeSettlement, h_ReferenceID = sid,
             h_Description = ''Settlement payment to user'', h_CreatedAt = now\<rparr>,
            \<lparr>h_UserID = s_ToUserID s, h_GroupID = s_GroupID s, h_Amount = - s_Amount s,
             h_Currency = s_Currency s, h_Type = BalanceChangeSettlement, h_ReferenceID = sid,
             h_Description = ''Settlement received from user'', h_CreatedAt = now\<rparr>]"
proof -
  obtain db' where res: "CompleteSettlement now db sid (s_FromUserID s) txn = (None, db')"
    and g: "settlement_GetByID db' sid =
           Inr (s\<lparr>s_Status := SettlementCompleted, s_CompletedAt := Some now,
                  s_UpdatedAt := now, s_TransactionID := txn\<rparr>)"
    and bal: "\<And>u g. balanceAmount db' u g =
             balanceAmount db u g
             + (if u = s_FromUserID s \<and> g = s_GroupID s then s_Amount s else 0)
             - (if u = s_ToUserID s \<and> g = s_GroupID s then s_Amount s else 0)"
    and hist: "history db' = history db @
           [(fromHistory now sid s)\<lparr>h_CreatedAt := now\<rparr>,
            (toHistory now sid s)\<lparr>h_CreatedAt := now\<rparr>]"
    using CompleteSettlement_effect[OF assms(1,2), of now txn] by blast
  have "balanceAmount db' (s_FromUserID s) (s_GroupID s)
           = balanceAmount db (s_FromUserID s) (s_GroupID s) + s_Amount s"
    using assms(3) by (simp add: bal)
  moreover have "balanceAmount db' (s_ToUserID s) (s_GroupID s)
           = balanceAmount db (s_ToUserID s) (s_GroupID s) - s_Amount s"
    using assms(3) by (simp add: bal)
  moreover have "history db' = history db @
           [\<lparr>h_UserID = s_FromUserID s, h_GroupID = s_GroupID s, h_Amount = s_Amount s,
             h_Currency = s_Currency s, h_Type = BalanceChangeSettlement, h_ReferenceID = sid,
             h_Description = ''Settlement payment to user'', h_CreatedAt = now\<rparr>,
            \<lparr>h_UserID = s_ToUserID s, h_GroupID = s_GroupID s, h_Amount = - s_Amount s,
             h_Currency = s_Currency s, h_Type = BalanceChangeSettlement, h_ReferenceID = sid,
             h_Description = ''Settlement received from user'', h_CreatedAt = now\<rparr>]"
    by (simp add: hist fromHistory_def toHistory_def)
  ultimately show ?thesis using res g bal by blast
qed

theorem complete_pending_settlement_witness:
  "settlement_GetByID dbPending ''s1'' = Inr settlementXY
   \<and> s_Status settlementXY = SettlementPending
   \<and> s_FromUserID settlementXY \<noteq> s_ToUserID settlementXY
   \<and> fst (CompleteSettlement 5 dbPending ''s1'' ''X'' (Some ''tx'')) = None
   \<and> settlement_GetByID (snd (CompleteSettlement 5 dbPending ''s1'' ''X'' (Some ''tx''))) ''s1''
        = Inr (settlementXY\<lparr>s_Status := SettlementCompleted, s_CompletedAt := Some 5,
                            s_UpdatedAt := 5, s_TransactionID := Some ''tx''\<rparr>)
   \<and> balanceAmount (snd (CompleteSettlement 5 dbPending ''s1'' ''X'' (Some ''tx''))) ''X'' None = 50
   \<and> balanceAmount (snd (CompleteSettlement 5 dbPending ''s1'' ''X'' (Some ''tx''))) ''Y'' None = - 50
   \<and> map h_UserID (history (snd (CompleteSettlement 5 dbPending ''s1'' ''X'' (Some ''tx''))))
        = [''X'', ''Y'']
   \<and> map h_Amount (history (snd (CompleteSettlement 5 dbPending ''s1'' ''X'' (Some ''tx''))))
        = [50, - 50]
   \<and> map h_ReferenceID (history (snd (CompleteSettlement 5 dbPending ''s1'' ''X'' (Some ''tx''))))
        = [''s1'', ''s1'']"
proof -
  have g: "settlement_GetByID dbPending ''s1'' = Inr settlementXY"
    by (simp add: settlement_GetByID_def store_examples)
  have p: "s_Status settlementXY = SettlementPending"
    and d: "s_FromUserID settlementXY \<noteq> s_ToUserID settlementXY"
    and f: "s_FromUserID settlementXY = ''X''" "s_ToUserID settlementXY = ''Y''"
      "s_GroupID settlementXY = None" "s_Amount settlementXY = 50"
    by (simp_all add: settlementXY_def)
  have z: "balanceAmount dbPending u None = 0" "history dbPending = []" for u
    by (simp_all add: balanceAmount_def GetByUserAndGroup_def store_examples)
  from complete_pending_settlement[OF g p d, of 5 "Some ''tx''"]
  show ?thesis using g p d by (auto simp: f z)
qed

text \<open>
  Claim C3, as the code has it.  The caller check of \<^verbatim>\<open>CompleteSettlement\<close> comes
  before the status check.  A completion succeeds only on a pending settlement and only
  for its from-user; it then stores the settlement as completed and applies the two
  balance deltas and the two history rows once, and every later completion of the same
  settlement fails and leaves the store as it is.  On a settlement that is not pending
  (completed, failed or cancelled), completion and cancellation both fail and leave the
  store as it is; the error of the completion is \<open>ErrSettlementCompleted\<close> for the
  from-user and \<open>ErrOnlyPayerCanComplete\<close> for every other caller.
\<close>

theorem settlement_lifecycle:
  assumes "settlement_GetByID db sid = Inr s"
  shows "(if s_Status s = SettlementPending
          then (if userID = s_FromUserID s
                then \<exists>db'. CompleteSettlement now db sid userID txn = (None, db')
                   \<and> (\<exists>s'. settlement_GetByID db' sid = Inr s'
                            \<and> s_Status s' = SettlementCompleted)
                   \<and> (\<forall>u g. balanceAmount db' u g =
                         balanceAmount db u g
                         + (if u = s_FromUserID s \<and> g = s_GroupID s then s_Amount s else 0)
                         - (if u = s_ToUserID s \<and> g = s_GroupID s then s_Amount s else 0))
                   \<and> length (history db') = length (history db) + 2
                   \<and> (\<forall>now' userID' txn'.
                         CompleteSettlement now' db' sid userID' txn' =
                           (Some (if userID' = s_FromUserID s then ErrSettlementCompleted
                                  else ErrOnlyPayerCanComplete), db'))
                else CompleteSettlement now db sid userID txn
                       = (Some ErrOnlyPayerCanComplete, db))
          else CompleteSettlement now db sid userID txn =
                 (Some (if userID = s_FromUserID s then ErrSettlementCompleted
                        else ErrOnlyPayerCanComplete), db)
             \<and> CancelSettlement now db sid userID =
                 (Some (if userID = s_FromUserID s \<or> userID = s_ToUserID s
                        then ErrCanOnlyCancelPending else ErrSettlementNotFound), db))"
proof (cases "s_Status s = SettlementPending")
  case False
  then show ?thesis using assms
    by (auto simp: CompleteSettlement_def CancelSettlement_def)
next
  case True
  show ?thesis
  proof (cases "userID = s_FromUserID s")
    case False
    then show ?thesis using True assms by (simp add: CompleteSettlement_def)
  next
    case caller: True
    obtain db' where res: "CompleteSettlement now db sid (s_FromUserID s) txn = (None, db')"
      and g: "settlement_GetByID db' sid =
           Inr (s\<lparr>s_Status := SettlementCompleted, s_CompletedAt := Some now,
                  s_UpdatedAt := now, s_TransactionID := txn\<rparr>)"
      and bal: "\<And>u g. balanceAmount db' u g =
             balanceAmount db u g
             + (if u = s_FromUserID s \<and> g = s_GroupID s then s_Amount s else 0)
             - (if u = s_ToUserID s \<and> g = s_GroupID s then s_Amount s else 0)"
      and hist: "history db' = history db @
           [(fromHistory now sid s)\<lparr>h_CreatedAt := now\<rparr>,
            (toHistory now sid s)\<lparr>h_CreatedAt := now\<rparr>]"
      using CompleteSettlement_effect[OF assms True, of now txn] by blast
    have again: "CompleteSettlement now' db' sid userID' txn' =
                   (Some (if userID' = s_FromUserID s then ErrSettlementCompleted
                          else ErrOnlyPayerCanComplete), db')" for now' userID' txn'
      using g by (simp add: CompleteSettlement_def)
    have "\<exists>s'. settlement_GetByID db' sid = Inr s' \<and> s_Status s' = SettlementCompleted"
      using g by simp
    moreover have "length (history db') = length (history db) + 2"
      by (simp add: hist)
    ultimately show ?thesis using True caller res bal again by auto
  qed
qed

theorem settlement_lifecycle_witness:
  "settlement_GetByID dbPending ''s1'' = Inr settlementXY
   \<and> fst (CompleteSettlement 5 dbPending ''s1'' ''X'' None) = None
   \<and> balanceAmount (snd (CompleteSettlement 5 dbPending ''s1'' ''X'' None)) ''X'' None = 50
   \<and> balanceAmount (snd (CompleteSettlement 5 dbPending ''s1'' ''X'' None)) ''Y'' None = - 50
   \<and> CompleteSettlement 6 (snd (CompleteSettlement 5 dbPending ''s1'' ''X'' None)) ''s1'' ''X'' None
        = (Some ErrSettlementCompleted, snd (CompleteSettlement 5 dbPending ''s1'' ''X'' None))
   \<and> settlement_GetByID dbDone ''s1'' = Inr doneXY
   \<and> CompleteSettlement 6 dbDone ''s1'' ''X'' None = (Some ErrSettlementCompleted, dbDone)
   \<and> CancelSettlement 6 dbDone ''s1'' ''Y'' = (Some ErrCanOnlyCancelPending, dbDone)"
proof -
  have g: "settlement_GetByID dbPending ''s1'' = Inr settlementXY"
    by (simp add: settlement_GetByID_def store_examples)
  have h: "settlement_GetByID dbDone ''s1'' = Inr doneXY"
    by (simp add: settlement_GetByID_def store_examples)
  have f: "s_Status settlementXY = SettlementPending"
    "s_FromUserID settlementXY = ''X''" "s_ToUserID settlementXY = ''Y''"
    "s_GroupID settlementXY = None" "s_Amount settlementXY = 50"
    "s_Status doneXY = SettlementCompleted"
    "s_FromUserID doneXY = ''X''" "s_ToUserID doneXY = ''Y''"
    by (simp_all add: settlementXY_def doneXY_def)
  have z: "balanceAmount dbPending u None = 0" for u
    by (simp add: balanceAmount_def GetByUserAndGroup_def store_examples)
  from settlement_lifecycle[OF g, where userID = "''X''" and now = 5 and txn = None]
    settlement_lifecycle[OF h, where userID = "''X''" and now = 6 and txn = None]
    settlement_lifecycle[OF h, where userID = "''Y''" and now = 6 and txn = None]
  show ?thesis using g h by (auto simp: f z)
qed

text \<open>
  The claim as stated fails: on the completed settlement from X to Y, a completion invoked
  by Y does not return \<open>ErrSettlementCompleted\<close>.
\<close>

theorem complete_by_other_party_counterexample:
  "settlement_GetByID dbDone ''s1'' = Inr doneXY
   \<and> s_Status doneXY = SettlementCompleted
   \<and> s_ToUserID doneXY = ''Y''
   \<and> CompleteSettlement 6 dbDone ''s1'' ''Y'' None = (Some ErrOnlyPayerCanComplete, dbDone)
   \<and> fst (CompleteSettlement 6 dbDone ''s1'' ''Y'' None) \<noteq> Some ErrSettlementCompleted"
  by (simp add: CompleteSettlement_def settlement_GetByID_def store_examples)

text \<open>
  Claim C9.  \<^verbatim>\<open>CancelSettlement\<close> on a stored settlement succeeds exactly when the
  caller is one of its two parties and the settlement is pending.  It then rewrites that
  one settlement document, changing its status to cancelled and its update time and
  nothing else.  Any other caller gets \<open>ErrSettlementNotFound\<close>, a party of a settlement
  that is not pending gets \<open>ErrCanOnlyCancelPending\<close>, and the store stays as it is.
  In every case the balance rows, the history rows and the expenses are untouched.
\<close>

theorem cancel_settlement:
  assumes "settlement_GetByID db sid = Inr s"
  shows "(if (userID = s_FromUserID s \<or> userID = s_ToUserID s) \<and> s_Status s = SettlementPending
          then \<exists>i. i < length (settlements db) \<and> settlements db ! i = s
                 \<and> CancelSettlement now db sid userID =
                     (None, db\<lparr>settlements := (settlements db)
                                  [i := s\<lparr>s_Status := SettlementCancelled, s_UpdatedAt := now\<rparr>]\<rparr>)
                 \<and> settlement_GetByID (snd (CancelSettlement now db sid userID)) sid =
                     Inr (s\<lparr>s_Status := SettlementCancelled, s_UpdatedAt := now\<rparr>)
          else CancelSettlement now db sid userID =
                 (Some (if userID = s_FromUserID s \<or> userID = s_ToUserID s
                        then ErrCanOnlyCancelPending else ErrSettlementNotFound), db))
       \<and> balances (snd (CancelSettlement now db sid userID)) = balances db
       \<and> history (snd (CancelSettlement now db sid userID)) = history db
       \<and> expenses (snd (CancelSettlement now db sid userID)) = expenses db"
proof (cases "(userID = s_FromUserID s \<or> userID = s_ToUserID s) \<and> s_Status s = SettlementPending")
  case True
  let ?P = "\<lambda>s. SettlementID s = sid"
  let ?f = "\<lambda>s. s\<lparr>s_Status := SettlementCancelled, s_UpdatedAt := now\<rparr>"
  have f: "find ?P (settlements db) = Some s"
    using assms by (simp add: settlement_GetByID_find)
  obtain i where i: "i < length (settlements db)" "settlements db ! i = s"
    and u: "UpdateOne ?P ?f (settlements db) = Some ((settlements db)[i := ?f s])"
    using UpdateOne_index[OF f, of ?f] by blast
  have "?P (?f s)" using GetByID_SettlementID[OF assms] by simp
  then obtain ys where "UpdateOne ?P ?f (settlements db) = Some ys" "find ?P ys = Some (?f s)"
    using UpdateOne_find_same[OF f, of ?f] by blast
  then have g: "find ?P ((settlements db)[i := ?f s]) = Some (?f s)" using u by simp
  have res: "CancelSettlement now db sid userID = (None, db\<lparr>settlements := (settlements db)[i := ?f s]\<rparr>)"
    using True assms u by (auto simp: CancelSettlement_def MarkCancelled_def)
  have "settlement_GetByID (snd (CancelSettlement now db sid userID)) sid = Inr (?f s)"
    using g by (simp add: res settlement_GetByID_def)
  then show ?thesis using True i res by auto
next
  case False
  then show ?thesis using assms by (auto simp: CancelSettlement_def)
qed

theorem cancel_settlement_witness:
  "settlement_GetByID dbPending ''s1'' = Inr settlementXY
   \<and> CancelSettlement 8 dbPending ''s1'' ''Y'' =
       (None, dbPending\<lparr>settlements :=
                [settlementXY\<lparr>s_Status := SettlementCancelled, s_UpdatedAt := 8\<rparr>]\<rparr>)
   \<and> CancelSettlement 8 dbPending ''s1'' ''X'' =
       (None, dbPending\<lparr>settlements :=
                [settlementXY\<lparr>s_Status := SettlementCancelled, s_UpdatedAt := 8\<rparr>]\<rparr>)
   \<and> CancelSettlement 8 dbPending ''s1'' ''Z'' = (Some ErrSettlementNotFound, dbPending)
   \<and> settlement_GetByID dbDone ''s1'' = Inr doneXY
   \<and> CancelSettlement 8 dbDone ''s1'' ''X'' = (Some ErrCanOnlyCancelPending, dbDone)"
proof -
  have g: "settlement_GetByID dbPending ''s1'' = Inr settlementXY"
    by (simp add: settlement_GetByID_def store_examples)
  have h: "settlement_GetByID dbDone ''s1'' = Inr doneXY"
    by (simp add: settlement_GetByID_def store_examples)
  have f: "s_Status settlementXY = SettlementPending"
    "s_FromUserID settlementXY = ''X''" "s_ToUserID settlementXY = ''Y''"
    "s_Status doneXY = SettlementCompleted"
    "s_FromUserID doneXY = ''X''" "s_ToUserID doneXY = ''Y''"
    by (simp_all add: settlementXY_def doneXY_def)
  have l: "settlements dbPending = [settlementXY]"
    by (simp add: store_examples)
  from cancel_settlement[OF g, where userID = "''Y''" and now = 8]
    cancel_settlement[OF g, where userID = "''X''" and now = 8]
    cancel_settlement[OF g, where userID = "''Z''" and now = 8]
    cancel_settlement[OF h, where userID = "''X''" and now = 8]
  show ?thesis using g h by (auto simp: f l)
qed

section \<open>Versioned update: the property\<close>

text \<open>
  Claim C8.  With one balance row per (user, scope), let \<open>stored\<close> be the row of the
  caller's (user, scope).  When its version equals the version the caller's record
  carries, \<^verbatim>\<open>UpdateBalanceWithVersion\<close> succeeds and the row then holds the caller's
  amount, the version plus one and the new timestamp; the version is a Go \<^verbatim>\<open>int\<close>, so
  one more than the largest is the smallest.  When the versions differ it returns
  \<open>ErrOptimisticLockFailure\<close> and the store is as before.
\<close>

theorem versioned_update:
  assumes "uniqueBalances db"
    and "GetByUserAndGroup db (b_UserID balance) (b_GroupID balance) = Inr stored"
  shows "(if b_Version stored = b_Version balance
          then \<exists>db'. UpdateBalanceWithVersion now db balance = (None, db')
                 \<and> GetByUserAndGroup db' (b_UserID balance) (b_GroupID balance) =
                     Inr (stored\<lparr>b_Balance := b_Balance balance,
                                 b_Version := b_Version stored + 1, b_UpdatedAt := now\<rparr>)
                 \<and> uniqueBalances db'
                 \<and> length (balances db') = length (balances db)
          else UpdateBalanceWithVersion now db balance = (Some ErrOptimisticLockFailure, db))"
proof -
  let ?u = "b_UserID balance" and ?g = "b_GroupID balance" and ?v = "b_Version balance"
  let ?P = "balanceFilter ?u ?g"
  let ?P' = "\<lambda>b. b_UserID b = ?u \<and> b_Version b = ?v \<and> b_GroupID b = ?g"
  let ?f = "\<lambda>b. b\<lparr>b_Balance := b_Balance balance, b_Version := ?v + 1, b_UpdatedAt := now\<rparr>"
  have f: "find ?P (balances db) = Some stored"
    using assms(2) by (simp add: GetByUserAndGroup_def split: option.splits)
  then have st: "?P stored" "stored \<in> set (balances db)"
    by (auto simp: find_Some_iff)
  show ?thesis
  proof (cases "b_Version stored = ?v")
    case True
    have "?P' stored" using st True by (simp add: balanceFilter_def)
    moreover have "\<And>y. ?P' y \<Longrightarrow> ?P y" by (simp add: balanceFilter_def)
    moreover have "?P (?f stored)" using st by (simp add: balanceFilter_def)
    ultimately obtain ys where ys: "UpdateOne ?P' ?f (balances db) = Some ys"
      and g: "find ?P ys = Some (?f stored)"
      using UpdateOne_find_refined[OF f, of ?P' ?f] by blast
    have keys: "map (\<lambda>b. (b_UserID b, b_GroupID b)) ys
                  = map (\<lambda>b. (b_UserID b, b_GroupID b)) (balances db)"
      using UpdateOne_keys[OF ys, of "\<lambda>b. (b_UserID b, b_GroupID b)"] by simp
    have "UpdateBalanceWithVersion now db balance = (None, db\<lparr>balances := ys\<rparr>)"
      using ys by (simp add: UpdateBalanceWithVersion_def Let_def)
    moreover have "GetByUserAndGroup (db\<lparr>balances := ys\<rparr>) ?u ?g =
                     Inr (stored\<lparr>b_Balance := b_Balance balance,
                                 b_Version := b_Version stored + 1, b_UpdatedAt := now\<rparr>)"
      using g True by (simp add: GetByUserAndGroup_def)
    moreover have "uniqueBalances (db\<lparr>balances := ys\<rparr>)"
      using assms(1) keys by (simp add: uniqueBalances_def)
    moreover have "length (balances (db\<lparr>balances := ys\<rparr>)) = length (balances db)"
      using arg_cong[OF keys, of length] by simp
    ultimately show ?thesis using True by auto
  next
    case False
    have "find ?P' (balances db) = None"
    proof (rule ccontr)
      assume "find ?P' (balances db) \<noteq> None"
      then obtain y where y: "find ?P' (balances db) = Some y" by auto
      then have "y \<in> set (balances db)" "?P' y" by (auto simp: find_Some_iff)
      moreover have "find (\<lambda>x. (b_UserID x, b_GroupID x) = (?u, ?g)) (balances db) = Some stored"
        using f by (simp add: balanceFilter_def[abs_def])
      ultimately have "y = stored"
        using unique_find_only[of "\<lambda>b. (b_UserID b, b_GroupID b)" "balances db" "(?u, ?g)" stored y]
          assms(1) by (simp add: uniqueBalances_def)
      then show False using \<open>?P' y\<close> False by simp
    qed
    then have "UpdateOne ?P' ?f (balances db) = None" by (simp add: UpdateOne_None)
    then show ?thesis using False by (simp add: UpdateBalanceWithVersion_def Let_def)
  qed
qed

theorem versioned_update_witness:
  "uniqueBalances dbBalance
   \<and> GetByUserAndGroup dbBalance ''X'' None = Inr balanceX
   \<and> UpdateBalanceWithVersion 9 dbBalance (balanceX\<lparr>b_Balance := 25\<rparr>) =
       (None, dbBalance\<lparr>balances :=
                [balanceX\<lparr>b_Balance := 25, b_Version := 4, b_UpdatedAt := 9\<rparr>]\<rparr>)
   \<and> UpdateBalanceWithVersion 9 dbBalance (balanceX\<lparr>b_Balance := 25, b_Version := 2\<rparr>) =
       (Some ErrOptimisticLockFailure, dbBalance)
   \<and> sint (b_Version balanceMax) = 9223372036854775807
   \<and> (\<exists>db'. UpdateBalanceWithVersion 9 (emptyDB\<lparr>balances := [balanceMax]\<rparr>)
                 (balanceMax\<lparr>b_Balance := 25\<rparr>) = (None, db')
            \<and> (case GetByUserAndGroup db' ''X'' None of
                  Inl err \<Rightarrow> False
                | Inr stored \<Rightarrow> b_Balance stored = 25
                                \<and> sint (b_Version stored) = - 9223372036854775808))"
proof -
  have u: "uniqueBalances dbBalance"
    by (simp add: uniqueBalances_def store_examples)
  have g: "GetByUserAndGroup dbBalance (b_UserID (balanceX\<lparr>b_Balance := 25\<rparr>))
             (b_GroupID (balanceX\<lparr>b_Balance := 25\<rparr>)) = Inr balanceX"
    "GetByUserAndGroup dbBalance (b_UserID (balanceX\<lparr>b_Balance := 25, b_Version := 2\<rparr>))
             (b_GroupID (balanceX\<lparr>b_Balance := 25, b_Version := 2\<rparr>)) = Inr balanceX"
    "GetByUserAndGroup dbBalance ''X'' None = Inr balanceX"
    by (simp_all add: GetByUserAndGroup_def balanceFilter_def store_examples)
  have ok: "UpdateBalanceWithVersion 9 dbBalance (balanceX\<lparr>b_Balance := 25\<rparr>) =
       (None, dbBalance\<lparr>balances :=
                [balanceX\<lparr>b_Balance := 25, b_Version := 4, b_UpdatedAt := 9\<rparr>]\<rparr>)"
    by (simp add: UpdateBalanceWithVersion_def Let_def store_examples)
  have um: "uniqueBalances (emptyDB\<lparr>balances := [balanceMax]\<rparr>)"
    by (simp add: uniqueBalances_def store_examples)
  have gm: "GetByUserAndGroup (emptyDB\<lparr>balances := [balanceMax]\<rparr>)
              (b_UserID (balanceMax\<lparr>b_Balance := 25\<rparr>))
              (b_GroupID (balanceMax\<lparr>b_Balance := 25\<rparr>)) = Inr balanceMax"
    by (simp add: GetByUserAndGroup_def balanceFilter_def balanceMax_def store_examples)
  have km: "b_UserID balanceMax = ''X''" "b_GroupID balanceMax = None"
    "b_Version balanceMax = 9223372036854775807"
    by (simp_all add: balanceMax_def balanceX_def)
  have w: "sint (9223372036854775807 :: 64 word) = 9223372036854775807"
    "sint (9223372036854775807 + 1 :: 64 word) = - 9223372036854775808"
    by simp_all
  have wrap: "\<exists>db'. UpdateBalanceWithVersion 9 (emptyDB\<lparr>balances := [balanceMax]\<rparr>)
                 (balanceMax\<lparr>b_Balance := 25\<rparr>) = (None, db')
            \<and> (case GetByUserAndGroup db' ''X'' None of
                  Inl err \<Rightarrow> False
                | Inr stored \<Rightarrow> b_Balance stored = 25
                                \<and> sint (b_Version stored) = - 9223372036854775808)"
    using versioned_update[OF um gm, of 9] w(2) by (auto simp: km)
  have stale: "UpdateBalanceWithVersion 9 dbBalance (balanceX\<lparr>b_Balance := 25, b_Version := 2\<rparr>)
                 = (Some ErrOptimisticLockFailure, dbBalance)"
    using versioned_update[OF u g(2), of 9] by (simp add: balanceX_def)
  have top: "sint (b_Version balanceMax) = 9223372036854775807"
    unfolding km by (rule w(1))
  from u g(3) ok stale top wrap show ?thesis by blast
qed

section \<open>Applying an expense to the balances\<close>

lemma updateBalancesPayers_amount:
  "balanceAmount (updateBalancesPayers now groupID share pbs db) u g =
     balanceAmount db u g
     + (if g = groupID then sum_list (map (\<lambda>pb. payerDelta share pb u) pbs) else 0)"
proof (induction pbs arbitrary: db)
  case Nil
  then show ?case by simp
next
  case (Cons pb pbs)
  have "\<exists>db1. updateBalancesPayers now groupID share (pb # pbs) db
                 = updateBalancesPayers now groupID share pbs db1
             \<and> balanceAmount db1 u g
                 = balanceAmount db u g + (if g = groupID then payerDelta share pb u else 0)"
    by (auto simp: UpdateBalance_amount payerDelta_def Let_def)
  then obtain db1 where
    "updateBalancesPayers now groupID share (pb # pbs) db
       = updateBalancesPayers now groupID share pbs db1"
    "balanceAmount db1 u g
       = balanceAmount db u g + (if g = groupID then payerDelta share pb u else 0)"
    by blast
  then show ?case using Cons.IH[of db1] by simp
qed

lemma updateBalancesShares_amount:
  "balanceAmount (updateBalancesShares now groupID pbs shares db) u g =
     balanceAmount db u g
     + (if g = groupID
        then sum_list (map (\<lambda>share. sum_list (map (\<lambda>pb. payerDelta share pb u) pbs)) shares)
        else 0)"
  by (induction shares arbitrary: db) (auto simp: updateBalancesPayers_amount)

text \<open>
  The balance of every user after \<^verbatim>\<open>updateBalances\<close>: the sum, over the resolved
  shares and the payers, of what each pass adds.
\<close>

lemma updateBalances_amount:
  "balanceAmount (updateBalances now e db) u g =
     balanceAmount db u g
     + (if g = e_GroupID e
        then sum_list (map (\<lambda>share. sum_list (map (\<lambda>pb. payerDelta share pb u) (e_PaidBy e)))
                           (sd_Details (Split e)))
        else 0)"
  by (simp add: updateBalances_def updateBalancesShares_amount)

text \<open>The arithmetic of the scenario: every value is a small integer, and no operation rounds.\<close>

lemma scenario_floats:
  "fdiv (Finite 90) (Finite 3) = Finite 30"
  "fmul (Finite 30) (Finite 3) = Finite 90"
  "fsub (Finite 90) (Finite 90) = Finite 0"
  "fadd (Finite 30) (Finite 0) = Finite 30"
  "fsub (Finite 90) (Finite 30) = Finite 60"
  by (simp_all add: float_eval)

lemma scenario_participants: "participants scenario = [''A'', ''B'', ''C'']"
  by (simp add: participants_def expense_examples)

lemma scenario_valid: "validateExpense scenario = None"
  by (simp add: validateExpense_def expense_examples SplitEqual_def fle_def paid_sums
        paid_tolerance del: fadd.simps)

lemma scenario_equal_shares:
  "calculateEqualShares (first # others) scenario =
     Inr (map (\<lambda>k. \<lparr>ss_UserID = k, ss_Value = Finite 30\<rparr>) (first # others))"
proof -
  have a: "e_Amount scenario = Finite 90"
    by (simp add: expense_examples)
  have n: "length (participants scenario) = 3"
    by (simp add: scenario_participants)
  show ?thesis
    unfolding calculateEqualShares_def Let_def n a
    by (simp add: ofNat_small scenario_floats del: fdiv.simps fmul.simps fadd.simps)
qed

lemma scenario_shares: "calculateShares [''A'', ''B'', ''C''] scenario = Inr resolved30"
proof -
  have "sd_Type (Split scenario) = SplitEqual"
    by (simp add: expense_examples)
  then show ?thesis
    by (simp add: calculateShares_def scenario_equal_shares resolved30_def detailsBC_def)
qed

lemma scenario_payerDelta:
  "payerDelta \<lparr>ss_UserID = k, ss_Value = Finite 30\<rparr> \<lparr>pb_UserID = ''A'', pb_Amount = Finite 90\<rparr> u
     = (if k = ''A'' then (if u = ''A'' then 60 else 0)
        else (if u = k then - 30 else 0) + (if u = ''A'' then 30 else 0))"
  by (simp add: payerDelta_def scenario_floats)

text \<open>
  The scenario in any order of the participant map: the shares are 30 each, and the
  balances move by +120, -30 and -30.
\<close>

lemma scenario_any_order:
  assumes "rangeOrder ks (participants scenario)"
  shows "calculateShares ks scenario = Inr (map (\<lambda>k. \<lparr>ss_UserID = k, ss_Value = Finite 30\<rparr>) ks)
       \<and> balanceAmount (updateBalances now
            (scenario\<lparr>Split := (Split scenario)\<lparr>sd_Details :=
                map (\<lambda>k. \<lparr>ss_UserID = k, ss_Value = Finite 30\<rparr>) ks\<rparr>\<rparr>) db) u None
          = balanceAmount db u None
            + (if u = ''A'' then 120 else if u = ''B'' \<or> u = ''C'' then - 30 else 0)"
proof -
  note p = scenario_participants
  have d: "distinct ks" and s: "set ks = {''A'', ''B'', ''C''}"
    using assms by (simp_all add: rangeOrder_def p)
  obtain first others where ks: "ks = first # others"
    using s by (cases ks) auto
  have "calculateEqualShares ks scenario =
          Inr (map (\<lambda>k. \<lparr>ss_UserID = k, ss_Value = Finite 30\<rparr>) ks)"
    unfolding ks by (rule scenario_equal_shares)
  then have c: "calculateShares ks scenario = Inr (map (\<lambda>k. \<lparr>ss_UserID = k, ss_Value = Finite 30\<rparr>) ks)"
    by (simp add: calculateShares_def expense_examples)
  let ?F = "\<lambda>k. payerDelta \<lparr>ss_UserID = k, ss_Value = Finite 30\<rparr> \<lparr>pb_UserID = ''A'', pb_Amount = Finite 90\<rparr> u"
  have "sum_list (map ?F ks) = sum ?F (set ks)"
    using d by (rule sum_list_distinct_conv_sum_set)
  also have "\<dots> = ?F ''A'' + ?F ''B'' + ?F ''C''"
    by (simp add: s)
  also have "\<dots> = (if u = ''A'' then 120 else if u = ''B'' \<or> u = ''C'' then - 30 else 0)"
    by (simp add: scenario_payerDelta)
  finally have "sum_list (map ?F ks)
                  = (if u = ''A'' then 120 else if u = ''B'' \<or> u = ''C'' then - 30 else 0)" .
  then have "balanceAmount (updateBalances now
            (scenario\<lparr>Split := (Split scenario)\<lparr>sd_Details :=
                map (\<lambda>k. \<lparr>ss_UserID = k, ss_Value = Finite 30\<rparr>) ks\<rparr>\<rparr>) db) u None
          = balanceAmount db u None
            + (if u = ''A'' then 120 else if u = ''B'' \<or> u = ''C'' then - 30 else 0)"
    by (simp add: updateBalances_amount expense_examples comp_def)
  with c show ?thesis by simp
qed

text \<open>
  Claim C2, evaluated on the code.  In the scenario (90.00 paid by A, equal split among A,
  B and C) the resolved shares are 30 each.  Applying the expense moves B and C by -30
  each, and moves A by +120: +60 from the pass that nets A's payment against A's own
  share, and +30 more in each of the passes for B's and C's shares.  The claim's +60 for A
  is not what the code computes.
\<close>

theorem scenario_deltas:
  "validateExpense scenario = None
   \<and> validEnv env0 scenario
   \<and> calculateShares [''A'', ''B'', ''C''] scenario = Inr resolved30
   \<and> map ss_Value resolved30 = [Finite 30, Finite 30, Finite 30]
   \<and> balanceAmount (updateBalances now
         (scenario\<lparr>Split := (Split scenario)\<lparr>sd_Details := resolved30\<rparr>\<rparr>) db) ''A'' None
       = balanceAmount db ''A'' None + 120
   \<and> balanceAmount (updateBalances now
         (scenario\<lparr>Split := (Split scenario)\<lparr>sd_Details := resolved30\<rparr>\<rparr>) db) ''B'' None
       = balanceAmount db ''B'' None - 30
   \<and> balanceAmount (updateBalances now
         (scenario\<lparr>Split := (Split scenario)\<lparr>sd_Details := resolved30\<rparr>\<rparr>) db) ''C'' None
       = balanceAmount db ''C'' None - 30
   \<and> map (\<lambda>u. balanceAmount (snd (CreateExpense env0 dbUsers scenario)) u None)
         [''A'', ''B'', ''C''] = [120, - 30, - 30]"
proof -
  have c: "CreateExpense env0 dbUsers scenario =
      (Inr (scenario\<lparr>Split := (Split scenario)\<lparr>sd_Details := resolved30\<rparr>,
                     ExpenseID := ''e1'', e_CreatedAt := 7, e_UpdatedAt := 7\<rparr>),
       updateBalances 7
         (scenario\<lparr>Split := (Split scenario)\<lparr>sd_Details := resolved30\<rparr>,
                   ExpenseID := ''e1'', e_CreatedAt := 7, e_UpdatedAt := 7, IsDeleted := False\<rparr>)
         (dbUsers\<lparr>expenses := [scenario\<lparr>Split := (Split scenario)\<lparr>sd_Details := resolved30\<rparr>,
                   ExpenseID := ''e1'', e_CreatedAt := 7, e_UpdatedAt := 7, IsDeleted := False\<rparr>]\<rparr>))"
  proof -
    have env: "time_Now env0 = 7" "uuid_New env0 = ''e1''"
      "rangeUsers env0 = [''A'', ''B'', ''C'']" "rangeParticipants env0 = [''A'', ''B'', ''C'']"
      by (simp_all add: env0_def)
    have g: "e_GroupID scenario = None"
      by (simp add: expense_examples)
    have vu: "validateUsersExist [''A'', ''B'', ''C''] dbUsers scenario = None"
      by (simp add: validateUsersExist_def ExistMultiple_def dbUsers_def emptyDB_def)
    have ex: "expenses dbUsers = []"
      by (simp add: dbUsers_def emptyDB_def)
    show ?thesis
      by (simp add: CreateExpense_def scenario_valid scenario_shares env g vu ex
            WithTransaction_def expense_CreateExpense_def Let_def)
  qed
  have z: "balanceAmount (dbUsers\<lparr>expenses := x\<rparr>) u None = 0" for x u
    by (simp add: balanceAmount_def GetByUserAndGroup_def dbUsers_def emptyDB_def)
  have s: "balanceAmount (updateBalances now'
             (scenario\<lparr>Split := (Split scenario)\<lparr>sd_Details := resolved30\<rparr>\<rparr>) db') u None
           = balanceAmount db' u None
             + (if u = ''A'' then 120 else if u = ''B'' \<or> u = ''C'' then - 30 else 0)"
    for now' db' u
    by (simp add: updateBalances_amount expense_examples scenario_payerDelta)
  have "map (\<lambda>u. balanceAmount (snd (CreateExpense env0 dbUsers scenario)) u None)
         [''A'', ''B'', ''C''] = [120, - 30, - 30]"
    unfolding c
    by (simp add: updateBalances_amount expense_examples scenario_payerDelta z)
  moreover have "map ss_Value resolved30 = [Finite 30, Finite 30, Finite 30]"
    by (simp add: expense_examples)
  moreover have "validEnv env0 scenario"
    by (simp add: validEnv_def rangeOrder_def userIDSet_def participants_def env0_def
          expense_examples)
  ultimately show ?thesis
    by (simp add: scenario_valid scenario_shares s)
qed

end
